theory Spec2Isabelle
  imports Complex_Main
begin

section \<open>JavaScript values\<close>

text \<open>
  The client of \<^verbatim>\<open>src/index.ts\<close> works on values decoded by \<^verbatim>\<open>JSON.parse\<close>, whose static
  types are only assertions: at run time a value is whatever the server sent.  The
  model therefore works on untyped JavaScript values.  An object is the list of its
  own properties; a decoded object has each key once, and in a list that repeats a key
  only the first binding counts.
\<close>

datatype jsnum = Finite rat | PosInfinity | NegInfinity | NaN

datatype jsval =
    JUndefined
  | JNull
  | JBool bool
  | JNum jsnum
  | JStr string
  | JArr "jsval list"
  | JObj "(string \<times> jsval) list"

datatype js_error = Error string | TypeError string | SyntaxError string

text \<open>\<^verbatim>\<open>err instanceof Error ? err.message : String(err)\<close>\<close>

fun error_message :: "js_error \<Rightarrow> string" where
  "error_message (Error m) = m"
| "error_message (TypeError m) = m"
| "error_message (SyntaxError m) = m"

fun js_typeof :: "jsval \<Rightarrow> string" where
  "js_typeof JUndefined = ''undefined''"
| "js_typeof JNull = ''object''"
| "js_typeof (JBool b) = ''boolean''"
| "js_typeof (JNum n) = ''number''"
| "js_typeof (JStr s) = ''string''"
| "js_typeof (JArr xs) = ''object''"
| "js_typeof (JObj fs) = ''object''"

fun Array_isArray :: "jsval \<Rightarrow> bool" where
  "Array_isArray (JArr xs) = True"
| "Array_isArray v = False"

fun Number_isFinite :: "jsval \<Rightarrow> bool" where
  "Number_isFinite (JNum (Finite q)) = True"
| "Number_isFinite v = False"

text \<open>Truthiness, as tested by \<^verbatim>\<open>if (x)\<close> and \<^verbatim>\<open>!x\<close>.\<close>

fun truthy :: "jsval \<Rightarrow> bool" where
  "truthy JUndefined = False"
| "truthy JNull = False"
| "truthy (JBool b) = b"
| "truthy (JNum (Finite q)) = (q \<noteq> 0)"
| "truthy (JNum NaN) = False"
| "truthy (JNum n) = True"
| "truthy (JStr s) = (s \<noteq> [])"
| "truthy (JArr xs) = True"
| "truthy (JObj fs) = True"

text \<open>
  A string is the list of the bytes of its UTF-8 encoding (an unpaired surrogate, which
  a JavaScript string may hold, as the three bytes of its code).  JavaScript counts the
  \<^verbatim>\<open>length\<close> of a string in UTF-16 code units, two for a code point of four bytes and
  one for any other, and a \<^verbatim>\<open>for ... of\<close> loop visits a string code point by code point.
\<close>

definition is_continuation :: "char \<Rightarrow> bool" where
  "is_continuation c = (digit7 c \<and> \<not> digit6 c)"

definition four_byte_lead :: "char \<Rightarrow> bool" where
  "four_byte_lead c = (digit7 c \<and> digit6 c \<and> digit5 c \<and> digit4 c)"

definition utf16_length :: "string \<Rightarrow> nat" where
  "utf16_length s =
     sum_list (map (\<lambda>c. if is_continuation c then 0 else if four_byte_lead c then 2 else 1) s)"

text \<open>The code points after the bytes \<open>cur\<close> of a code point that has begun.\<close>

fun split_code_points :: "string \<Rightarrow> string \<Rightarrow> string list" where
  "split_code_points cur [] = (if cur = [] then [] else [cur])"
| "split_code_points cur (c # cs) =
     (if is_continuation c \<or> cur = [] then split_code_points (cur @ [c]) cs
      else cur # split_code_points [c] cs)"

definition code_points :: "string \<Rightarrow> string list" where
  "code_points s = split_code_points [] s"

text \<open>
  A property read \<^verbatim>\<open>v.k\<close> on a value that is neither \<^verbatim>\<open>undefined\<close> nor \<^verbatim>\<open>null\<close>.
  Of the inherited properties only \<^verbatim>\<open>length\<close> of arrays and strings is modelled: no
  other name the program reads is defined on a prototype.
\<close>

fun get :: "jsval \<Rightarrow> string \<Rightarrow> jsval" where
  "get (JObj fs) k = (case map_of fs k of Some v \<Rightarrow> v | None \<Rightarrow> JUndefined)"
| "get (JArr xs) k = (if k = ''length'' then JNum (Finite (of_nat (length xs))) else JUndefined)"
| "get (JStr s) k = (if k = ''length'' then JNum (Finite (of_nat (utf16_length s))) else JUndefined)"
| "get v k = JUndefined"

text \<open>The same read where the receiver may be \<^verbatim>\<open>undefined\<close> or \<^verbatim>\<open>null\<close>: a TypeError.\<close>

fun get_prop :: "jsval \<Rightarrow> string \<Rightarrow> js_error + jsval" where
  "get_prop JUndefined k = Inl (TypeError ''Cannot read properties of undefined'')"
| "get_prop JNull k = Inl (TypeError ''Cannot read properties of null'')"
| "get_prop v k = Inr (get v k)"

text \<open>\<^verbatim>\<open>k in v\<close> for a record \<open>v\<close>.\<close>

fun has_property :: "string \<Rightarrow> jsval \<Rightarrow> bool" where
  "has_property k (JObj fs) = (k \<in> fst ` set fs)"
| "has_property k v = False"

text \<open>The string held by a value that a type guard has shown to be a string.\<close>

fun the_string :: "jsval \<Rightarrow> string" where
  "the_string (JStr s) = s"
| "the_string v = []"

text \<open>
  The values a \<^verbatim>\<open>for ... of\<close> loop visits: the elements of an array, the code points
  of a string; any other value is not iterable.
\<close>

fun iterate :: "jsval \<Rightarrow> js_error + jsval list" where
  "iterate (JArr xs) = Inr xs"
| "iterate (JStr s) = Inr (map JStr (code_points s))"
| "iterate v = Inl (TypeError ''value is not iterable'')"

text \<open>
  Membership in a \<^verbatim>\<open>Set\<close> compares with SameValueZero: primitives by value, objects
  and arrays by identity.  The values of a decoded message share no structure, so two
  occurrences of an object or array are never the same member.
\<close>

fun same_value_zero :: "jsval \<Rightarrow> jsval \<Rightarrow> bool" where
  "same_value_zero (JArr xs) w = False"
| "same_value_zero (JObj fs) w = False"
| "same_value_zero v w = (v = w)"

definition Set_add :: "jsval list \<Rightarrow> jsval \<Rightarrow> jsval list" where
  "Set_add s v = (if list_ex (\<lambda>w. same_value_zero v w) s then s else s @ [v])"

text \<open>No member of the set is the same value as \<open>v\<close>.\<close>

definition unseen :: "jsval list \<Rightarrow> jsval \<Rightarrow> bool" where
  "unseen s v = (\<not> list_ex (\<lambda>w. same_value_zero v w) s)"

text \<open>Decimal digits of a number inside a template string.\<close>

fun show_nat :: "nat \<Rightarrow> string" where
  "show_nat n = (if n < 10 then [''0123456789'' ! n]
     else show_nat (n div 10) @ [''0123456789'' ! (n mod 10)])"

declare show_nat.simps [simp del]

section \<open>Parsing utilities and type guards\<close>

text \<open>
  The collaborators the client calls but does not implement: the JSON and URL parsers
  of the runtime, the two fetch functions and the x402 client.  A call that throws
  (or a promise that rejects) returns \<open>Inl\<close> or \<open>None\<close>.
\<close>

record request =
  req_url :: string
  req_method :: string
  req_headers :: "(string \<times> string) list"
  req_body :: "jsval option"

record response =
  resp_status :: nat
  resp_headers :: "(string \<times> string) list"
  resp_json :: "js_error + jsval"

definition resp_ok :: "response \<Rightarrow> bool" where
  "resp_ok resp = (200 \<le> resp_status resp \<and> resp_status resp \<le> 299)"

record env =
  JSON_parse :: "string \<Rightarrow> jsval option"
  URL_searchParams :: "string \<Rightarrow> (string \<times> string) list option"
  URL_resolve :: "string \<Rightarrow> string \<Rightarrow> string option"
  fetchWithPayment :: "request \<Rightarrow> js_error + response"
  fetch :: "request \<Rightarrow> js_error + response"
  getPaymentRequiredResponse :: "response \<Rightarrow> jsval \<Rightarrow> js_error + jsval"
  createPaymentPayload :: "jsval \<Rightarrow> js_error + jsval"

definition safeJsonParse :: "env \<Rightarrow> string \<Rightarrow> jsval" where
  "safeJsonParse e raw = (case JSON_parse e raw of Some v \<Rightarrow> v | None \<Rightarrow> JUndefined)"

definition isRecord :: "jsval \<Rightarrow> bool" where
  "isRecord v = (js_typeof v = ''object'' \<and> v \<noteq> JNull \<and> \<not> Array_isArray v)"

definition isWsStatusEvent :: "jsval \<Rightarrow> bool" where
  "isWsStatusEvent v = (if \<not> isRecord v then False
     else get v ''type'' = JStr ''status'' \<and> js_typeof (get v ''now'') = ''string'')"

definition isWsTransactionEvent :: "jsval \<Rightarrow> bool" where
  "isWsTransactionEvent v = (if \<not> isRecord v then False
     else get v ''type'' = JStr ''transaction'' \<and> js_typeof (get v ''signature'') = ''string'')"

definition isWsAccountEvent :: "jsval \<Rightarrow> bool" where
  "isWsAccountEvent v = (if \<not> isRecord v then False
     else get v ''type'' = JStr ''account'' \<and> js_typeof (get v ''pubkey'') = ''string'')"

definition isWsSlotEvent :: "jsval \<Rightarrow> bool" where
  "isWsSlotEvent v = (if \<not> isRecord v then False
     else get v ''type'' = JStr ''slot'' \<and> js_typeof (get v ''slot'') = ''number'')"

definition isWsTickerEvent :: "jsval \<Rightarrow> bool" where
  "isWsTickerEvent v = (if \<not> isRecord v then False
     else get v ''type'' = JStr ''ticker'' \<and> js_typeof (get v ''baseMint'') = ''string'')"

definition isWsLeaderboardEvent :: "jsval \<Rightarrow> bool" where
  "isWsLeaderboardEvent v = (if \<not> isRecord v then False
     else get v ''type'' = JStr ''leaderboard'' \<and> Array_isArray (get v ''items''))"

definition isEnhancedTransactionEvent :: "jsval \<Rightarrow> bool" where
  "isEnhancedTransactionEvent v = has_property ''nativeTransfers'' v"

definition isWsX402Event :: "jsval \<Rightarrow> bool" where
  "isWsX402Event v = (if \<not> isRecord v then False
     else if js_typeof (get v ''op'') \<noteq> ''string'' then False
     else get v ''op'' \<in> set (map JStr
       [''hello'', ''renewal_reminder'', ''payment_required'', ''renewed'', ''error'']))"

definition isRenewResponse :: "jsval \<Rightarrow> bool" where
  "isRenewResponse v = (if \<not> isRecord v then False
     else js_typeof (get v ''token'') = ''string''
       \<and> js_typeof (get v ''expiresAt'') = ''string''
       \<and> js_typeof (get v ''sliceSeconds'') = ''number'')"

definition isString :: "jsval \<Rightarrow> bool" where
  "isString v = (js_typeof v = ''string'')"

definition isNumber :: "jsval \<Rightarrow> bool" where
  "isNumber v = (js_typeof v = ''number'' \<and> Number_isFinite v)"

definition isWs402StreamSchema :: "jsval \<Rightarrow> bool" where
  "isWs402StreamSchema v =
    (if \<not> isRecord v then False
     else if get v ''protocol'' \<noteq> JStr ''ws402'' then False
     else if get v ''version'' \<noteq> JStr ''1'' then False
     else if \<not> isString (get v ''websocketEndpoint'') then False
     else if \<not> isRecord (get v ''pricing'') \<or> \<not> isRecord (get v ''paymentDetails'') then False
     else let pricing = get v ''pricing'' in
       if \<not> isNumber (get pricing ''pricePerSecond'')
          \<or> \<not> isString (get pricing ''currency'')
          \<or> \<not> isNumber (get pricing ''estimatedDuration'') then False
       else let details = get v ''paymentDetails'' in
         if get details ''scheme'' \<noteq> JStr ''exact''
            \<or> \<not> isString (get details ''network'')
            \<or> \<not> isString (get details ''asset'')
            \<or> \<not> isString (get details ''payTo'')
            \<or> \<not> isString (get details ''maxAmountRequired'')
            \<or> \<not> isNumber (get details ''maxTimeoutSeconds'') then False
         else if \<not> isRecord (get v ''stream'') then False
         else let stream = get v ''stream'' in
           isString (get stream ''id'') \<and> isString (get stream ''title'')
             \<and> isString (get stream ''description''))"

definition isPaymentRequired :: "jsval \<Rightarrow> bool" where
  "isPaymentRequired v = (if \<not> isRecord v then False
     else Array_isArray (get v ''accepts'')
       \<and> (case get v ''accepts'' of JArr xs \<Rightarrow> length xs > 0 | _ \<Rightarrow> False))"

section \<open>Configuration and observable effects\<close>

datatype RenewMethod = http | inband

datatype EventFormat = raw | enhanced

datatype TxLogMode = summary | full

record config =
  HTTP_BASE :: string
  X402_SCHEMA_PATH :: string
  RENEW_METHOD :: RenewMethod
  WATCH_ACCOUNTS :: "string list"
  WATCH_PROGRAMS :: "string list"
  INCLUDE_ACCOUNTS :: bool
  INCLUDE_TOKEN_BALANCE_CHANGES :: bool
  INCLUDE_LOGS :: bool
  INCLUDE_INSTRUCTIONS :: bool
  FILTER_TOKEN_BALANCES :: bool
  EVENT_FORMAT :: EventFormat
  TX_LOG_MODE :: TxLogMode

fun EventFormat_str :: "EventFormat \<Rightarrow> string" where
  "EventFormat_str raw = ''raw''"
| "EventFormat_str enhanced = ''enhanced''"

datatype LogLevel = debug | info | warn | error

fun levelOrder :: "LogLevel \<Rightarrow> nat" where
  "levelOrder debug = 10"
| "levelOrder info = 20"
| "levelOrder warn = 30"
| "levelOrder error = 40"

definition shouldLog :: "nat \<Rightarrow> LogLevel \<Rightarrow> bool" where
  "shouldLog minLevel level = (levelOrder level \<ge> minLevel)"

text \<open>
  What a handler does to the outside, in program order: a call of the logger (level,
  scope, message, metadata; \<open>JUndefined\<close> when no metadata is passed), a message
  given to \<^verbatim>\<open>ws.send\<close> (the value that is serialised), an HTTP request given to the
  payment-wrapping fetch or to the plain one, and a timer wait in milliseconds.
  The logger prints the line of a call when \<open>shouldLog\<close> holds of its level.  The
  handlers run on an open socket, where \<^verbatim>\<open>ws.send\<close> does not throw.
\<close>

datatype effect =
    Log LogLevel string string jsval
  | WsSend jsval
  | FetchWithPayment request
  | Fetch request
  | Sleep nat

definition logInfo :: "string \<Rightarrow> string \<Rightarrow> jsval \<Rightarrow> effect" where
  "logInfo scope message meta = Log info scope message meta"

definition logWarn :: "string \<Rightarrow> string \<Rightarrow> jsval \<Rightarrow> effect" where
  "logWarn scope message meta = Log warn scope message meta"

text \<open>The messages of a trace that went to the websocket, in order.\<close>

fun sent :: "effect list \<Rightarrow> jsval list" where
  "sent [] = []"
| "sent (WsSend m # es) = m # sent es"
| "sent (e # es) = sent es"

section \<open>Transaction summarizers\<close>

text \<open>\<^verbatim>\<open>a ?? b\<close>\<close>

definition nullish_or :: "jsval \<Rightarrow> jsval \<Rightarrow> jsval" where
  "nullish_or a b = (if a = JUndefined \<or> a = JNull then b else a)"

text \<open>\<^verbatim>\<open>a?.k\<close>\<close>

definition optional_get :: "jsval \<Rightarrow> string \<Rightarrow> jsval" where
  "optional_get a k = (if a = JUndefined \<or> a = JNull then JUndefined else get a k)"

text \<open>
  The loop \<^verbatim>\<open>for (const change of changes) { if (change.mint) mints.add(change.mint) }\<close>
  over the values \<open>changes\<close>, from the set \<open>mints\<close> built so far (in insertion order).
\<close>

fun collect_mints :: "jsval list \<Rightarrow> jsval list \<Rightarrow> js_error + jsval list" where
  "collect_mints mints [] = Inr mints"
| "collect_mints mints (change # rest) =
     (case get_prop change ''mint'' of
        Inl e \<Rightarrow> Inl e
      | Inr m \<Rightarrow> collect_mints (if truthy m then Set_add mints m else mints) rest)"

text \<open>The nested loop over \<^verbatim>\<open>event.accountData\<close> and each entry's \<^verbatim>\<open>tokenBalanceChanges\<close>.\<close>

fun collect_account_mints :: "jsval list \<Rightarrow> jsval list \<Rightarrow> js_error + jsval list" where
  "collect_account_mints mints [] = Inr mints"
| "collect_account_mints mints (change # rest) =
     (case get_prop change ''tokenBalanceChanges'' of
        Inl e \<Rightarrow> Inl e
      | Inr tbc \<Rightarrow>
          (case iterate tbc of
             Inl e \<Rightarrow> Inl e
           | Inr tokenChanges \<Rightarrow>
               (case collect_mints mints tokenChanges of
                  Inl e \<Rightarrow> Inl e
                | Inr mints' \<Rightarrow> collect_account_mints mints' rest)))"

definition summarizeRawTransaction :: "jsval \<Rightarrow> js_error + jsval" where
  "summarizeRawTransaction event =
     (case iterate (nullish_or (get event ''tokenBalanceChanges'') (JArr [])) of
        Inl e \<Rightarrow> Inl e
      | Inr changes \<Rightarrow>
          (case collect_mints [] changes of
             Inl e \<Rightarrow> Inl e
           | Inr mints \<Rightarrow> Inr (JObj
               [(''signature'', get event ''signature''),
                (''slot'', get event ''slot''),
                (''commitment'', get event ''commitment''),
                (''tokenBalanceChanges'',
                   nullish_or (optional_get (get event ''tokenBalanceChanges'') ''length'')
                     (JNum (Finite 0))),
                (''mints'', JArr (take 5 mints))])))"

definition summarizeEnhancedTransaction :: "jsval \<Rightarrow> js_error + jsval" where
  "summarizeEnhancedTransaction event =
     (case iterate (get event ''tokenTransfers'') of
        Inl e \<Rightarrow> Inl e
      | Inr transfers \<Rightarrow>
          (case collect_mints [] transfers of
             Inl e \<Rightarrow> Inl e
           | Inr mints1 \<Rightarrow>
               (case iterate (get event ''accountData'') of
                  Inl e \<Rightarrow> Inl e
                | Inr accountData \<Rightarrow>
                    (case collect_account_mints mints1 accountData of
                       Inl e \<Rightarrow> Inl e
                     | Inr mints \<Rightarrow> Inr (JObj
                         [(''signature'', get event ''signature''),
                          (''slot'', get event ''slot''),
                          (''commitment'', get event ''commitment''),
                          (''tokenTransfers'', get (get event ''tokenTransfers'') ''length''),
                          (''mints'', JArr (take 5 mints))])))))"

section \<open>URL helpers\<close>

text \<open>\<^verbatim>\<open>parsed.searchParams.get('t') ?? ''\<close>: the value of the first pair named \<open>t\<close>.\<close>

definition parseTokenFromWsUrl :: "env \<Rightarrow> string \<Rightarrow> string" where
  "parseTokenFromWsUrl e wsUrl =
     (case URL_searchParams e wsUrl of
        None \<Rightarrow> []
      | Some params \<Rightarrow> (case map_of params ''t'' of Some t \<Rightarrow> t | None \<Rightarrow> []))"

definition buildRenewUrl :: "env \<Rightarrow> string \<Rightarrow> string \<Rightarrow> string \<Rightarrow> js_error + string" where
  "buildRenewUrl e httpBase streamId version =
     (case URL_resolve e (''/'' @ version @ ''/renew/stream/'' @ streamId) httpBase of
        None \<Rightarrow> Inl (TypeError ''Invalid URL'')
      | Some u \<Rightarrow> Inr u)"

section \<open>x402 schema and renewal\<close>

record schema_result =
  sr_wsUrl :: string
  sr_token :: string
  sr_streamId :: string

definition requestWs402Schema ::
  "env \<Rightarrow> config \<Rightarrow> string \<Rightarrow> effect list \<times> (js_error + schema_result)" where
  "requestWs402Schema e cfg httpBase =
     (case URL_resolve e (X402_SCHEMA_PATH cfg) httpBase of
        None \<Rightarrow> ([], Inl (TypeError ''Invalid URL''))
      | Some url \<Rightarrow>
          let req = \<lparr>req_url = url, req_method = ''GET'', req_headers = [], req_body = None\<rparr>;
              es = [logInfo ''client'' ''requesting x402 schema'' (JObj [(''url'', JStr url)]),
                    FetchWithPayment req]
          in (case fetchWithPayment e req of
                Inl err \<Rightarrow> (es, Inl err)
              | Inr resp \<Rightarrow>
                  if \<not> resp_ok resp
                  then (es, Inl (Error (''x402 schema failed: '' @ show_nat (resp_status resp))))
                  else (case resp_json resp of
                          Inl err \<Rightarrow> (es, Inl err)
                        | Inr data \<Rightarrow>
                            if \<not> isWs402StreamSchema data
                            then (es, Inl (Error ''x402 schema response shape invalid''))
                            else let wsUrl = the_string (get data ''websocketEndpoint'');
                                     token = parseTokenFromWsUrl e wsUrl;
                                     streamId = the_string (get (get data ''stream'') ''id'')
                                 in if token = []
                                    then (es, Inl (Error ''x402 schema missing token''))
                                    else (es @ [logInfo ''client'' ''x402 schema acquired''
                                                  (JObj [(''wsUrl'', JStr wsUrl),
                                                         (''streamId'', JStr streamId)])],
                                          Inr \<lparr>sr_wsUrl = wsUrl, sr_token = token,
                                                sr_streamId = streamId\<rparr>))))"

text \<open>The POST both renewal strategies issue: \<^verbatim>\<open>body: JSON.stringify({ token: oldToken })\<close>.\<close>

definition renew_request :: "string \<Rightarrow> string \<Rightarrow> request" where
  "renew_request renewUrl oldToken =
     \<lparr>req_url = renewUrl, req_method = ''POST'',
      req_headers = [(''content-type'', ''application/json'')],
      req_body = Some (JObj [(''token'', JStr oldToken)])\<rparr>"

definition httpRenew :: "env \<Rightarrow> string \<Rightarrow> string \<Rightarrow> effect list \<times> (js_error + jsval)" where
  "httpRenew e renewUrl oldToken =
     (let req = renew_request renewUrl oldToken;
          es = [logInfo ''client'' ''requesting http renew'' (JObj [(''url'', JStr renewUrl)]),
                FetchWithPayment req]
      in (case fetchWithPayment e req of
            Inl err \<Rightarrow> (es, Inl err)
          | Inr resp \<Rightarrow>
              if \<not> resp_ok resp
              then (es, Inl (Error (''renew failed: '' @ show_nat (resp_status resp))))
              else (case resp_json resp of
                      Inl err \<Rightarrow> (es, Inl err)
                    | Inr data \<Rightarrow>
                        if \<not> isRenewResponse data
                        then (es, Inl (Error ''renew response shape invalid''))
                        else (es @ [logInfo ''client'' ''http renew ok''
                                      (JObj [(''expiresAt'', get data ''expiresAt''),
                                             (''sliceSeconds'', get data ''sliceSeconds'')])],
                              Inr data))))"

text \<open>\<^verbatim>\<open>await resp.json().catch(() => undefined)\<close>\<close>

definition json_or_undefined :: "response \<Rightarrow> jsval" where
  "json_or_undefined resp = (case resp_json resp of Inl err \<Rightarrow> JUndefined | Inr v \<Rightarrow> v)"

definition inbandRenewChallenge ::
  "env \<Rightarrow> string \<Rightarrow> string \<Rightarrow> effect list \<times> (js_error + jsval)" where
  "inbandRenewChallenge e renewUrl oldToken =
     (let req = renew_request renewUrl oldToken;
          es = [Fetch req]
      in (case fetch e req of
            Inl err \<Rightarrow> (es, Inl err)
          | Inr resp \<Rightarrow>
              if resp_status resp \<noteq> 402
              then (es, Inl (Error (''expected 402 challenge, got '' @ show_nat (resp_status resp))))
              else (case getPaymentRequiredResponse e resp (json_or_undefined resp) of
                      Inl err \<Rightarrow> (es, Inl err)
                    | Inr paymentRequired \<Rightarrow>
                        if \<not> isPaymentRequired paymentRequired
                        then (es, Inl (Error ''payment-required response shape invalid''))
                        else (es @ [logInfo ''client'' ''received inband challenge''
                                      (JObj [(''accepts'',
                                              get (get paymentRequired ''accepts'') ''length'')])],
                              Inr paymentRequired))))"

section \<open>The websocket handlers\<close>

definition setOptions_fields :: "config \<Rightarrow> (string \<times> jsval) list" where
  "setOptions_fields cfg =
     [(''includeAccounts'', JBool (INCLUDE_ACCOUNTS cfg)),
      (''includeTokenBalanceChanges'', JBool (INCLUDE_TOKEN_BALANCE_CHANGES cfg)),
      (''includeLogs'', JBool (INCLUDE_LOGS cfg)),
      (''includeInstructions'', JBool (INCLUDE_INSTRUCTIONS cfg)),
      (''eventFormat'', JStr (EventFormat_str (EVENT_FORMAT cfg))),
      (''filterTokenBalances'', JBool (FILTER_TOKEN_BALANCES cfg))]"

definition count_meta :: "string list \<Rightarrow> jsval" where
  "count_meta xs = JObj [(''count'', JNum (Finite (of_nat (length xs))))]"

text \<open>\<^verbatim>\<open>ws.on('open', ...)\<close>\<close>

definition ws_on_open :: "config \<Rightarrow> effect list" where
  "ws_on_open cfg =
     [logInfo ''client'' ''ws open'' JUndefined,
      logInfo ''client'' ''setting options'' (JObj (setOptions_fields cfg)),
      WsSend (JObj ((''op'', JStr ''setOptions'') # setOptions_fields cfg))]
     @ (if length (WATCH_ACCOUNTS cfg) \<noteq> 0
        then [logInfo ''client'' ''setting watch accounts'' (count_meta (WATCH_ACCOUNTS cfg)),
              WsSend (JObj [(''op'', JStr ''setAccounts''),
                            (''accounts'', JArr (map JStr (WATCH_ACCOUNTS cfg)))])]
        else [])
     @ (if length (WATCH_PROGRAMS cfg) \<noteq> 0
        then [logInfo ''client'' ''setting watch programs'' (count_meta (WATCH_PROGRAMS cfg)),
              WsSend (JObj [(''op'', JStr ''setPrograms''),
                            (''programs'', JArr (map JStr (WATCH_PROGRAMS cfg)))])]
        else [])
     @ (if length (WATCH_ACCOUNTS cfg) = 0 \<and> length (WATCH_PROGRAMS cfg) = 0
        then [logWarn ''client''
                ''no watchlists configured (WATCH_ACCOUNTS/WATCH_PROGRAMS empty)'' JUndefined]
        else [])
     @ [WsSend (JObj [(''op'', JStr ''getState'')])]"

text \<open>
  How one run of the asynchronous message handler ends: its promise is fulfilled, or it
  is rejected with an error that nothing in the program catches.
\<close>

datatype outcome = Returned | Rejected js_error

record run =
  run_effects :: "effect list"
  run_token :: string
  run_outcome :: outcome

definition status_meta :: "jsval \<Rightarrow> jsval" where
  "status_meta decoded = JObj
     [(''clientId'', get decoded ''clientId''),
      (''grpcConnected'', get decoded ''grpcConnected''),
      (''nodeHealthy'', get decoded ''nodeHealthy''),
      (''watchedAccounts'', get decoded ''watchedAccounts''),
      (''watchedMints'', get decoded ''watchedMints'')]"

definition account_meta :: "jsval \<Rightarrow> jsval" where
  "account_meta decoded = JObj
     [(''pubkey'', get decoded ''pubkey''),
      (''owner'', get decoded ''owner''),
      (''slot'', get decoded ''slot''),
      (''encoding'', get decoded ''dataEncoding'')]"

definition slot_meta :: "jsval \<Rightarrow> jsval" where
  "slot_meta decoded = JObj
     [(''slot'', get decoded ''slot''),
      (''parent'', get decoded ''parent''),
      (''status'', get decoded ''status'')]"

definition ticker_meta :: "jsval \<Rightarrow> jsval" where
  "ticker_meta decoded = JObj
     [(''baseMint'', get decoded ''baseMint''),
      (''quoteMint'', get decoded ''quoteMint''),
      (''price'', get decoded ''price''),
      (''dex'', get decoded ''dex''),
      (''slot'', get decoded ''slot'')]"

definition leaderboard_meta :: "jsval \<Rightarrow> jsval" where
  "leaderboard_meta decoded = JObj
     [(''items'', get (get decoded ''items'') ''length''),
      (''asOf'', get decoded ''asOf'')]"

text \<open>The body of the transaction branch: the whole event, or its summary.\<close>

definition on_transaction :: "config \<Rightarrow> string \<Rightarrow> jsval \<Rightarrow> run" where
  "on_transaction cfg currentToken decoded =
     (if TX_LOG_MODE cfg = full
      then \<lparr>run_effects = [logInfo ''client'' ''transaction'' (JObj [(''event'', decoded)])],
            run_token = currentToken, run_outcome = Returned\<rparr>
      else (case (if isEnhancedTransactionEvent decoded
                  then summarizeEnhancedTransaction decoded
                  else summarizeRawTransaction decoded) of
              Inl err \<Rightarrow>
                \<lparr>run_effects = [], run_token = currentToken, run_outcome = Rejected err\<rparr>
            | Inr s \<Rightarrow>
                \<lparr>run_effects = [logInfo ''client'' ''transaction'' s],
                 run_token = currentToken, run_outcome = Returned\<rparr>))"

text \<open>\<^verbatim>\<open>const [selectedRequirements] = paymentRequired.accepts\<close>\<close>

definition first_element :: "jsval \<Rightarrow> jsval" where
  "first_element v = (case v of JArr (x # xs) \<Rightarrow> x | _ \<Rightarrow> JUndefined)"

text \<open>
  The \<^verbatim>\<open>try\<close> block of the renewal branch: the effects it has, the value of
  \<^verbatim>\<open>currentToken\<close> when it ends, and the error it throws, if any.
\<close>

definition try_renew ::
  "env \<Rightarrow> config \<Rightarrow> string \<Rightarrow> string \<Rightarrow> effect list \<times> string \<times> js_error option" where
  "try_renew e cfg renewUrl currentToken =
     (if RENEW_METHOD cfg = http
      then (case httpRenew e renewUrl currentToken of
              (es, Inl err) \<Rightarrow> (es, currentToken, Some err)
            | (es, Inr renewed) \<Rightarrow>
                let currentToken' = the_string (get renewed ''token'')
                in (es @ [logInfo ''client'' ''sending renew token'' JUndefined,
                          WsSend (JObj [(''op'', JStr ''renew_token''),
                                        (''token'', JStr currentToken')])],
                    currentToken', None))
      else (case inbandRenewChallenge e renewUrl currentToken of
              (es, Inl err) \<Rightarrow> (es, currentToken, Some err)
            | (es, Inr paymentRequired) \<Rightarrow>
                let es' = es @ [logInfo ''client'' ''creating inband payment payload'' JUndefined]
                in (case createPaymentPayload e paymentRequired of
                      Inl err \<Rightarrow> (es', currentToken, Some err)
                    | Inr paymentPayload \<Rightarrow>
                        let selectedRequirements = first_element (get paymentRequired ''accepts'')
                        in if \<not> truthy selectedRequirements
                           then (es', currentToken,
                                 Some (Error ''payment-required missing accepts''))
                           else (es' @ [WsSend (JObj
                                          [(''op'', JStr ''renew_inband''),
                                           (''paymentRequirements'', selectedRequirements),
                                           (''paymentPayload'', paymentPayload)])],
                                 currentToken, None))))"

text \<open>The \<^verbatim>\<open>catch\<close> block of the renewal branch: a warning, then \<^verbatim>\<open>await sleep(1000)\<close>.\<close>

definition catch_renew_error :: "js_error \<Rightarrow> effect list" where
  "catch_renew_error err =
     [logWarn ''client'' ''renew error'' (JObj [(''message'', JStr (error_message err))]),
      Sleep 1000]"

text \<open>The lifecycle branch, from \<^verbatim>\<open>logInfo('client', 'ws event', ...)\<close> on.\<close>

definition on_x402_event :: "env \<Rightarrow> config \<Rightarrow> string \<Rightarrow> string \<Rightarrow> jsval \<Rightarrow> run" where
  "on_x402_event e cfg renewUrl currentToken decoded =
     (let es0 = [logInfo ''client'' ''ws event'' (JObj [(''op'', get decoded ''op'')])]
      in if get decoded ''op'' = JStr ''renewal_reminder''
            \<or> get decoded ''op'' = JStr ''payment_required''
         then (case try_renew e cfg renewUrl currentToken of
                 (es, currentToken', None) \<Rightarrow>
                   \<lparr>run_effects = es0 @ es, run_token = currentToken', run_outcome = Returned\<rparr>
               | (es, currentToken', Some err) \<Rightarrow>
                   \<lparr>run_effects = es0 @ es @ catch_renew_error err,
                    run_token = currentToken', run_outcome = Returned\<rparr>)
         else \<lparr>run_effects = es0, run_token = currentToken, run_outcome = Returned\<rparr>)"

definition logged :: "string \<Rightarrow> effect \<Rightarrow> run" where
  "logged currentToken ef =
     \<lparr>run_effects = [ef], run_token = currentToken, run_outcome = Returned\<rparr>"

text \<open>
  \<^verbatim>\<open>ws.on('message', async (buf) => ...)\<close>, run from the message to the end of the
  handler with no other handler in between.  \<open>renewUrl\<close> and \<open>currentToken\<close> are the
  variables of \<^verbatim>\<open>main\<close> the handler closes over; \<open>buf\<close> is the text of the message.
\<close>

definition ws_on_message :: "env \<Rightarrow> config \<Rightarrow> string \<Rightarrow> string \<Rightarrow> string \<Rightarrow> run" where
  "ws_on_message e cfg renewUrl currentToken buf =
     (let decoded = safeJsonParse e buf
      in if isWsStatusEvent decoded
         then logged currentToken (logInfo ''client'' ''status'' (status_meta decoded))
         else if isWsTransactionEvent decoded
         then on_transaction cfg currentToken decoded
         else if isWsAccountEvent decoded
         then logged currentToken (logInfo ''client'' ''account'' (account_meta decoded))
         else if isWsSlotEvent decoded
         then logged currentToken (logInfo ''client'' ''slot'' (slot_meta decoded))
         else if isWsTickerEvent decoded
         then logged currentToken (logInfo ''client'' ''ticker'' (ticker_meta decoded))
         else if isWsLeaderboardEvent decoded
         then logged currentToken (logInfo ''client'' ''leaderboard'' (leaderboard_meta decoded))
         else if \<not> isWsX402Event decoded
         then logged currentToken
                (logWarn ''client'' ''ws event ignored: invalid shape'' JUndefined)
         else on_x402_event e cfg renewUrl currentToken decoded)"

section \<open>Classification as the specification words it\<close>

text \<open>
  The specification describes each variant by the shape of the decoded JSON object: a
  tag under \<^verbatim>\<open>type\<close> and one required member of a given kind, or, for lifecycle
  events, an \<^verbatim>\<open>op\<close> out of a fixed set.  The variants are tried in a fixed order.
\<close>

fun member :: "jsval \<Rightarrow> string \<Rightarrow> jsval option" where
  "member (JObj fs) k = map_of fs k"
| "member v k = None"


definition string_member :: "string \<Rightarrow> jsval \<Rightarrow> bool" where
  "string_member k v = (case member v k of Some (JStr s) \<Rightarrow> True | _ \<Rightarrow> False)"

definition number_member :: "string \<Rightarrow> jsval \<Rightarrow> bool" where
  "number_member k v = (case member v k of Some (JNum n) \<Rightarrow> True | _ \<Rightarrow> False)"







section \<open>Handlers that overlap\<close>

text \<open>
  The websocket emits each message to the asynchronous handler and does not wait for
  the promise the handler returns.  A handler runs until its first \<^verbatim>\<open>await\<close>; what
  follows runs when the awaited promise settles, and other handlers may start or
  resume in between.  Only the renewal branch awaits: the HTTP call of the chosen
  strategy (the request and the decoding of its body are taken as one wait), the
  creation of the payment payload, and the backoff timer.  A suspended handler is
  recorded with what it waits for; the requests carry the token read when the call
  was made.
\<close>

datatype pending =
    AwaitHttpRenew request
  | AwaitChallenge request
  | AwaitPaymentPayload jsval
  | AwaitSleep

datatype settlement =
    FetchSettled "js_error + response"
  | PayloadSettled "js_error + jsval"
  | TimerFired

datatype event = Message string | Settle nat settlement

record client =
  cl_token :: string
  cl_pending :: "pending list"
  cl_trace :: "effect list"
  cl_unhandled :: "js_error list"

definition initial_client :: "string \<Rightarrow> client" where
  "initial_client token =
     \<lparr>cl_token = token, cl_pending = [], cl_trace = [], cl_unhandled = []\<rparr>"

text \<open>The handler reaches the \<^verbatim>\<open>try\<close> block of the renewal branch.\<close>

definition reaches_renewal :: "jsval \<Rightarrow> bool" where
  "reaches_renewal decoded =
     (\<not> isWsStatusEvent decoded \<and> \<not> isWsTransactionEvent decoded
      \<and> \<not> isWsAccountEvent decoded \<and> \<not> isWsSlotEvent decoded
      \<and> \<not> isWsTickerEvent decoded \<and> \<not> isWsLeaderboardEvent decoded
      \<and> isWsX402Event decoded
      \<and> (get decoded ''op'' = JStr ''renewal_reminder''
          \<or> get decoded ''op'' = JStr ''payment_required''))"

text \<open>The renewal branch up to its first \<^verbatim>\<open>await\<close>: the request is issued.\<close>

definition begin_renew :: "config \<Rightarrow> string \<Rightarrow> string \<Rightarrow> effect list \<times> pending" where
  "begin_renew cfg renewUrl currentToken =
     (let req = renew_request renewUrl currentToken
      in if RENEW_METHOD cfg = http
         then ([logInfo ''client'' ''requesting http renew'' (JObj [(''url'', JStr renewUrl)]),
                FetchWithPayment req],
               AwaitHttpRenew req)
         else ([Fetch req], AwaitChallenge req))"

text \<open>The rest of \<^verbatim>\<open>httpRenew\<close> once \<^verbatim>\<open>fetchWithPayment\<close> has settled.\<close>

definition httpRenew_settled :: "js_error + response \<Rightarrow> effect list \<times> (js_error + jsval)" where
  "httpRenew_settled r =
     (case r of
        Inl err \<Rightarrow> ([], Inl err)
      | Inr resp \<Rightarrow>
          if \<not> resp_ok resp
          then ([], Inl (Error (''renew failed: '' @ show_nat (resp_status resp))))
          else (case resp_json resp of
                  Inl err \<Rightarrow> ([], Inl err)
                | Inr data \<Rightarrow>
                    if \<not> isRenewResponse data
                    then ([], Inl (Error ''renew response shape invalid''))
                    else ([logInfo ''client'' ''http renew ok''
                             (JObj [(''expiresAt'', get data ''expiresAt''),
                                    (''sliceSeconds'', get data ''sliceSeconds'')])],
                          Inr data)))"

text \<open>The rest of \<^verbatim>\<open>inbandRenewChallenge\<close> once \<^verbatim>\<open>fetch\<close> has settled.\<close>

definition inbandRenewChallenge_settled ::
  "env \<Rightarrow> js_error + response \<Rightarrow> effect list \<times> (js_error + jsval)" where
  "inbandRenewChallenge_settled e r =
     (case r of
        Inl err \<Rightarrow> ([], Inl err)
      | Inr resp \<Rightarrow>
          if resp_status resp \<noteq> 402
          then ([], Inl (Error (''expected 402 challenge, got '' @ show_nat (resp_status resp))))
          else (case getPaymentRequiredResponse e resp (json_or_undefined resp) of
                  Inl err \<Rightarrow> ([], Inl err)
                | Inr paymentRequired \<Rightarrow>
                    if \<not> isPaymentRequired paymentRequired
                    then ([], Inl (Error ''payment-required response shape invalid''))
                    else ([logInfo ''client'' ''received inband challenge''
                             (JObj [(''accepts'',
                                     get (get paymentRequired ''accepts'') ''length'')])],
                          Inr paymentRequired)))"

text \<open>
  A suspended handler resumes with what it awaited: its effects, the value of
  \<^verbatim>\<open>currentToken\<close> afterwards, and its next wait, if it has one.  A settlement of
  another kind than the handler awaits does not happen.
\<close>

fun resume ::
  "env \<Rightarrow> string \<Rightarrow> pending \<Rightarrow> settlement \<Rightarrow> (effect list \<times> string \<times> pending option) option"
where
  "resume e currentToken (AwaitHttpRenew req) (FetchSettled r) =
     Some (case httpRenew_settled r of
             (es, Inl err) \<Rightarrow> (es @ catch_renew_error err, currentToken, Some AwaitSleep)
           | (es, Inr renewed) \<Rightarrow>
               let currentToken' = the_string (get renewed ''token'')
               in (es @ [logInfo ''client'' ''sending renew token'' JUndefined,
                         WsSend (JObj [(''op'', JStr ''renew_token''),
                                       (''token'', JStr currentToken')])],
                   currentToken', None))"
| "resume e currentToken (AwaitChallenge req) (FetchSettled r) =
     Some (case inbandRenewChallenge_settled e r of
             (es, Inl err) \<Rightarrow> (es @ catch_renew_error err, currentToken, Some AwaitSleep)
           | (es, Inr paymentRequired) \<Rightarrow>
               (es @ [logInfo ''client'' ''creating inband payment payload'' JUndefined],
                currentToken, Some (AwaitPaymentPayload paymentRequired)))"
| "resume e currentToken (AwaitPaymentPayload paymentRequired) (PayloadSettled r) =
     Some (case r of
             Inl err \<Rightarrow> (catch_renew_error err, currentToken, Some AwaitSleep)
           | Inr paymentPayload \<Rightarrow>
               let selectedRequirements = first_element (get paymentRequired ''accepts'')
               in if \<not> truthy selectedRequirements
                  then (catch_renew_error (Error ''payment-required missing accepts''),
                        currentToken, Some AwaitSleep)
                  else ([WsSend (JObj [(''op'', JStr ''renew_inband''),
                                       (''paymentRequirements'', selectedRequirements),
                                       (''paymentPayload'', paymentPayload)])],
                        currentToken, None))"
| "resume e currentToken AwaitSleep TimerFired = Some ([], currentToken, None)"
| "resume e currentToken p s = None"

text \<open>The list without its \<open>i\<close>-th element.\<close>

definition remove_nth :: "nat \<Rightarrow> 'a list \<Rightarrow> 'a list" where
  "remove_nth i xs = take i xs @ drop (Suc i) xs"

definition step :: "env \<Rightarrow> config \<Rightarrow> string \<Rightarrow> client \<Rightarrow> event \<Rightarrow> client" where
  "step e cfg renewUrl c ev =
     (case ev of
        Message buf \<Rightarrow>
          if reaches_renewal (safeJsonParse e buf)
          then (case begin_renew cfg renewUrl (cl_token c) of
                  (es, p) \<Rightarrow>
                    c\<lparr>cl_trace := cl_trace c
                         @ [logInfo ''client'' ''ws event''
                              (JObj [(''op'', get (safeJsonParse e buf) ''op'')])] @ es,
                      cl_pending := cl_pending c @ [p]\<rparr>)
          else let r = ws_on_message e cfg renewUrl (cl_token c) buf
               in c\<lparr>cl_trace := cl_trace c @ run_effects r,
                    cl_token := run_token r,
                    cl_unhandled := cl_unhandled c
                      @ (case run_outcome r of Returned \<Rightarrow> [] | Rejected err \<Rightarrow> [err])\<rparr>
      | Settle i s \<Rightarrow>
          if i < length (cl_pending c)
          then (case resume e (cl_token c) (cl_pending c ! i) s of
                  None \<Rightarrow> c
                | Some (es, currentToken', next) \<Rightarrow>
                    c\<lparr>cl_trace := cl_trace c @ es,
                      cl_token := currentToken',
                      cl_pending := (case next of
                                       None \<Rightarrow> remove_nth i (cl_pending c)
                                     | Some p \<Rightarrow> (cl_pending c)[i := p])\<rparr>)
          else c)"

definition run_events :: "env \<Rightarrow> config \<Rightarrow> string \<Rightarrow> client \<Rightarrow> event list \<Rightarrow> client" where
  "run_events e cfg renewUrl c evs = foldl (step e cfg renewUrl) c evs"

text \<open>A renewal attempt is in flight while its handler waits for anything but the backoff.\<close>

fun renewing :: "pending \<Rightarrow> bool" where
  "renewing AwaitSleep = False"
| "renewing p = True"

definition in_flight :: "client \<Rightarrow> nat" where
  "in_flight c = length (filter renewing (cl_pending c))"

definition renewal_messages :: "env \<Rightarrow> event list \<Rightarrow> nat" where
  "renewal_messages e evs =
     length (filter (\<lambda>ev. case ev of Message buf \<Rightarrow> reaches_renewal (safeJsonParse e buf)
                                   | Settle i s \<Rightarrow> False) evs)"

text \<open>
  One handler on its own: each call it awaits settles with the answer of the
  environment before anything else happens.
\<close>

fun env_settlement :: "env \<Rightarrow> pending \<Rightarrow> settlement" where
  "env_settlement e (AwaitHttpRenew req) = FetchSettled (fetchWithPayment e req)"
| "env_settlement e (AwaitChallenge req) = FetchSettled (fetch e req)"
| "env_settlement e (AwaitPaymentPayload paymentRequired) =
     PayloadSettled (createPaymentPayload e paymentRequired)"
| "env_settlement e AwaitSleep = TimerFired"

fun settle_alone :: "env \<Rightarrow> config \<Rightarrow> string \<Rightarrow> nat \<Rightarrow> client \<Rightarrow> client" where
  "settle_alone e cfg renewUrl 0 c = c"
| "settle_alone e cfg renewUrl (Suc n) c =
     (case cl_pending c of
        [] \<Rightarrow> c
      | p # ps \<Rightarrow>
          settle_alone e cfg renewUrl n
            (step e cfg renewUrl c (Settle 0 (env_settlement e p))))"

text \<open>The handler waits for a direct renewal.\<close>

fun awaits_http :: "pending \<Rightarrow> bool" where
  "awaits_http (AwaitHttpRenew req) = True"
| "awaits_http p = False"

text \<open>
  An effect that is no HTTP request, or is the plain POST of \<open>token\<close> to the renewal URL.
\<close>

fun challenge_or_local :: "string \<Rightarrow> string \<Rightarrow> effect \<Rightarrow> bool" where
  "challenge_or_local renewUrl token (Fetch req) = (req = renew_request renewUrl token)"
| "challenge_or_local renewUrl token (FetchWithPayment req) = False"
| "challenge_or_local renewUrl token ef = True"

section \<open>Mints of a transaction event\<close>

text \<open>
  The mints of a list of transfer or balance-change entries are the \<^verbatim>\<open>mint\<close> values
  that are present, in the order of the entries: an entry whose \<^verbatim>\<open>mint\<close> is missing,
  empty or otherwise falsy names no mint.
\<close>

definition mints_of :: "jsval list \<Rightarrow> jsval list" where
  "mints_of entries = filter truthy (map (\<lambda>x. get x ''mint'') entries)"

text \<open>Each value once, at the place of its first occurrence.\<close>

fun first_seen :: "jsval list \<Rightarrow> jsval list" where
  "first_seen [] = []"
| "first_seen (x # xs) = x # filter (\<lambda>y. \<not> same_value_zero y x) (first_seen xs)"

definition items :: "jsval \<Rightarrow> jsval list" where
  "items v = (case iterate v of Inr xs \<Rightarrow> xs | Inl err \<Rightarrow> [])"

text \<open>The entries a raw event is summarised from: its token balance changes.\<close>

definition raw_entries :: "jsval \<Rightarrow> jsval list" where
  "raw_entries event = items (nullish_or (get event ''tokenBalanceChanges'') (JArr []))"

text \<open>
  The entries of an enhanced event: its token transfers, then the token balance changes
  of each account-data entry.
\<close>

definition enhanced_entries :: "jsval \<Rightarrow> jsval list" where
  "enhanced_entries event =
     items (get event ''tokenTransfers'')
     @ concat (map (\<lambda>a. items (get a ''tokenBalanceChanges'')) (items (get event ''accountData'')))"

text \<open>
  The number an event's summary reports for a list of entries: the \<^verbatim>\<open>length\<close> of the
  value, or zero when it has none.
\<close>

fun entry_count :: "jsval \<Rightarrow> nat" where
  "entry_count (JArr xs) = length xs"
| "entry_count (JStr s) = utf16_length s"
| "entry_count v = 0"

text \<open>
  Events as their types describe them.  A raw event has no \<^verbatim>\<open>tokenBalanceChanges\<close> or an
  array of objects; an enhanced event has an array of objects as \<^verbatim>\<open>tokenTransfers\<close> and,
  as \<^verbatim>\<open>accountData\<close>, an array of objects that each have an array of objects as
  \<^verbatim>\<open>tokenBalanceChanges\<close>.  Nothing is asked of the \<^verbatim>\<open>mint\<close> of an entry.
\<close>

fun array_of_records :: "jsval \<Rightarrow> bool" where
  "array_of_records (JArr xs) = list_all isRecord xs"
| "array_of_records v = False"

definition raw_shaped :: "jsval \<Rightarrow> bool" where
  "raw_shaped event =
     (get event ''tokenBalanceChanges'' = JUndefined
      \<or> array_of_records (get event ''tokenBalanceChanges''))"

fun account_data_shaped :: "jsval \<Rightarrow> bool" where
  "account_data_shaped (JArr xs) =
     list_all (\<lambda>a. isRecord a \<and> array_of_records (get a ''tokenBalanceChanges'')) xs"
| "account_data_shaped v = False"

definition enhanced_shaped :: "jsval \<Rightarrow> bool" where
  "enhanced_shaped event =
     (array_of_records (get event ''tokenTransfers'')
      \<and> account_data_shaped (get event ''accountData''))"

section \<open>Sample inputs\<close>

text \<open>The configuration when no environment variable is set.\<close>

definition default_config :: config where
  "default_config =
     \<lparr>HTTP_BASE = ''https://x402.atomicstream.net'',
      X402_SCHEMA_PATH = ''/v1/schema/stream/mempool-sniff'',
      RENEW_METHOD = http,
      WATCH_ACCOUNTS = [],
      WATCH_PROGRAMS = [],
      INCLUDE_ACCOUNTS = True,
      INCLUDE_TOKEN_BALANCE_CHANGES = True,
      INCLUDE_LOGS = False,
      INCLUDE_INSTRUCTIONS = False,
      FILTER_TOKEN_BALANCES = False,
      EVENT_FORMAT = enhanced,
      TX_LOG_MODE = full\<rparr>"

text \<open>An environment in which no text is JSON, no text is a URL and every call fails.\<close>

definition offline_env :: env where
  "offline_env =
     \<lparr>JSON_parse = (\<lambda>text. None),
      URL_searchParams = (\<lambda>url. None),
      URL_resolve = (\<lambda>path base. None),
      fetchWithPayment = (\<lambda>req. Inl (Error ''fetch failed'')),
      fetch = (\<lambda>req. Inl (Error ''fetch failed'')),
      getPaymentRequiredResponse = (\<lambda>resp body. Inl (Error ''Invalid payment required response'')),
      createPaymentPayload = (\<lambda>paymentRequired. Inl (Error ''payment payload failed''))\<rparr>"

text \<open>An environment that decodes every message to the given value.\<close>

definition decoding_env :: "jsval \<Rightarrow> env" where
  "decoding_env v = offline_env\<lparr>JSON_parse := (\<lambda>text. Some v)\<rparr>"

definition renewal_reminder_event :: jsval where
  "renewal_reminder_event =
     JObj [(''op'', JStr ''renewal_reminder''), (''expiresAt'', JStr ''2025-01-13T10:35:00.000Z''),
           (''msUntilExpiry'', JNum (Finite 30000))]"

definition slot_event :: jsval where
  "slot_event =
     JObj [(''type'', JStr ''slot''), (''slot'', JNum (Finite 100)), (''status'', JStr ''confirmed'')]"

text \<open>A token balance change or token transfer that names the given mint.\<close>

definition entry_with_mint :: "string \<Rightarrow> jsval" where
  "entry_with_mint m = JObj [(''account'', JStr ''acct''), (''mint'', JStr m)]"

definition raw_transaction_event :: "string list \<Rightarrow> jsval" where
  "raw_transaction_event ms =
     JObj [(''type'', JStr ''transaction''), (''commitment'', JStr ''processed''),
           (''slot'', JNum (Finite 392892992)), (''signature'', JStr ''3L3RY''),
           (''tokenBalanceChanges'', JArr (map entry_with_mint ms))]"

definition enhanced_transaction_event :: "string list \<Rightarrow> jsval" where
  "enhanced_transaction_event ms =
     JObj [(''type'', JStr ''transaction''), (''commitment'', JStr ''processed''),
           (''slot'', JNum (Finite 392892992)), (''signature'', JStr ''3L3RY''),
           (''nativeTransfers'', JArr []),
           (''tokenTransfers'', JArr (map entry_with_mint ms)),
           (''accountData'', JArr [])]"

text \<open>
  An enhanced event with token transfers of the mints \<open>ms\<close> and one account-data entry
  for each list of \<open>mss\<close>, whose token balance changes name the mints of that list.
\<close>

definition enhanced_event_with_account_data :: "string list \<Rightarrow> string list list \<Rightarrow> jsval" where
  "enhanced_event_with_account_data ms mss =
     JObj [(''type'', JStr ''transaction''), (''commitment'', JStr ''confirmed''),
           (''slot'', JNum (Finite 392892993)), (''signature'', JStr ''5VERv''),
           (''nativeTransfers'', JArr []),
           (''tokenTransfers'', JArr (map entry_with_mint ms)),
           (''accountData'',
              JArr (map (\<lambda>ns. JObj [(''account'', JStr ''acct''),
                                      (''nativeBalanceChange'', JNum (Finite 0)),
                                      (''tokenBalanceChanges'', JArr (map entry_with_mint ns))])
                        mss))]"


text \<open>A schema body of the right shape with the given websocket endpoint.\<close>

definition sample_schema :: "string \<Rightarrow> jsval" where
  "sample_schema wsUrl =
     JObj [(''protocol'', JStr ''ws402''), (''version'', JStr ''1''),
           (''websocketEndpoint'', JStr wsUrl),
           (''pricing'', JObj [(''pricePerSecond'', JNum (Finite (1 / 100))),
                               (''currency'', JStr ''USDC''),
                               (''estimatedDuration'', JNum (Finite 300))]),
           (''paymentDetails'', JObj [(''scheme'', JStr ''exact''),
                                      (''network'', JStr ''solana''),
                                      (''asset'', JStr ''USDC''),
                                      (''payTo'', JStr ''4vJ9JU1bJJE96FWSJKvHsmmFADCg4gpZQff4P3bkLKi''),
                                      (''maxAmountRequired'', JStr ''3000000''),
                                      (''maxTimeoutSeconds'', JNum (Finite 60))]),
           (''stream'', JObj [(''id'', JStr ''mempool-sniff''),
                              (''title'', JStr ''Mempool sniff''),
                              (''description'', JStr ''Processed transactions'')])]"

definition json_response :: "nat \<Rightarrow> jsval \<Rightarrow> response" where
  "json_response code body = \<lparr>resp_status = code, resp_headers = [], resp_json = Inr body\<rparr>"

text \<open>
  An environment whose schema request is answered with status 200 and the sample schema,
  and whose URL parser finds the given query parameters in every URL.
\<close>

definition schema_env :: "string \<Rightarrow> (string \<times> string) list \<Rightarrow> env" where
  "schema_env wsUrl params =
     offline_env\<lparr>URL_searchParams := (\<lambda>url. Some params),
                 URL_resolve := (\<lambda>path base. Some (base @ path)),
                 fetchWithPayment := (\<lambda>req. Inr (json_response 200 (sample_schema wsUrl)))\<rparr>"

text \<open>
  An environment that decodes every message to \<open>msg\<close>, answers every request with
  \<open>resp\<close>, reads the payment requirements from the body of a response, and signs every
  payment with the same payload.
\<close>

definition signed_payload :: jsval where
  "signed_payload = JObj [(''x402Version'', JNum (Finite 1)), (''payload'', JStr ''signed'')]"

definition responding_env :: "jsval \<Rightarrow> response \<Rightarrow> env" where
  "responding_env msg resp =
     offline_env\<lparr>JSON_parse := (\<lambda>text. Some msg),
                 fetchWithPayment := (\<lambda>req. Inr resp),
                 fetch := (\<lambda>req. Inr resp),
                 getPaymentRequiredResponse := (\<lambda>r body. Inr body),
                 createPaymentPayload := (\<lambda>paymentRequired. Inr signed_payload)\<rparr>"

text \<open>The body of a successful direct renewal, and of an in-band challenge.\<close>

definition renew_body :: "string \<Rightarrow> jsval" where
  "renew_body newToken =
     JObj [(''token'', JStr newToken), (''expiresAt'', JStr ''2025-01-13T10:40:00.000Z''),
           (''sliceSeconds'', JNum (Finite 300))]"

definition sample_requirement :: "string \<Rightarrow> jsval" where
  "sample_requirement network =
     JObj [(''scheme'', JStr ''exact''), (''network'', JStr network),
           (''maxAmountRequired'', JStr ''3000000'')]"

definition challenge_body :: "jsval list \<Rightarrow> jsval" where
  "challenge_body accepts = JObj [(''x402Version'', JNum (Finite 1)), (''accepts'', JArr accepts)]"

definition inband_config :: config where
  "inband_config = default_config\<lparr>RENEW_METHOD := inband\<rparr>"

definition sample_renewUrl :: string where
  "sample_renewUrl = ''https://x402.atomicstream.net/v1/renew/stream/mempool-sniff''"

section \<open>Properties\<close>

subsection \<open>Type guards and shapes\<close>

lemma typeof_string: "js_typeof v = ''string'' \<longleftrightarrow> (\<exists>s. v = JStr s)"
  by (cases v) auto

lemma typeof_number: "js_typeof v = ''number'' \<longleftrightarrow> (\<exists>n. v = JNum n)"
  by (cases v) auto

lemma isArray_iff: "Array_isArray v \<longleftrightarrow> (\<exists>xs. v = JArr xs)"
  by (cases v) auto

lemma isRecord_iff: "isRecord v \<longleftrightarrow> (\<exists>fs. v = JObj fs)"
  by (cases v) (auto simp: isRecord_def)











subsection \<open>Classification of inbound messages\<close>



subsection \<open>Transaction summaries\<close>

lemma first_seen_filter:
  "first_seen (filter (\<lambda>y. \<not> same_value_zero y x) zs) = filter (\<lambda>y. \<not> same_value_zero y x) (first_seen zs)"
proof (induction zs)
  case Nil
  then show ?case by simp
next
  case (Cons z zs)
  show ?case
  proof (cases "same_value_zero z x")
    case True
    then have zx: "z = x" by (cases z) auto
    have "filter (\<lambda>y. \<not> same_value_zero y x) (filter (\<lambda>y. \<not> same_value_zero y z) (first_seen zs))
        = filter (\<lambda>y. \<not> same_value_zero y x) (first_seen zs)"
      by (simp add: zx)
    with True Cons show ?thesis by simp
  next
    case False
    with Cons show ?thesis by (simp add: conj_commute)
  qed
qed

lemma unseen_snoc: "unseen (acc @ [x]) = (\<lambda>y. unseen acc y \<and> \<not> same_value_zero y x)"
  by (auto simp: unseen_def fun_eq_iff)

lemma foldl_Set_add:
  "foldl Set_add acc ms = acc @ first_seen (filter (unseen acc) ms)"
proof (induction ms arbitrary: acc)
  case Nil
  then show ?case by simp
next
  case (Cons x ms)
  show ?case
  proof (cases "unseen acc x")
    case True
    have sa: "Set_add acc x = acc @ [x]"
      using True by (simp add: Set_add_def unseen_def)
    have "filter (unseen (acc @ [x])) ms = filter (\<lambda>y. \<not> same_value_zero y x) (filter (unseen acc) ms)"
      by (simp add: unseen_snoc)
    then have "foldl Set_add (acc @ [x]) ms
        = (acc @ [x]) @ filter (\<lambda>y. \<not> same_value_zero y x) (first_seen (filter (unseen acc) ms))"
      using Cons[of "acc @ [x]"] by (simp only: first_seen_filter)
    moreover have "acc @ first_seen (filter (unseen acc) (x # ms))
        = (acc @ [x]) @ filter (\<lambda>y. \<not> same_value_zero y x) (first_seen (filter (unseen acc) ms))"
      using True by simp
    ultimately show ?thesis by (simp only: foldl_Cons sa)
  next
    case False
    have sa: "Set_add acc x = acc"
      using False by (simp add: Set_add_def unseen_def)
    have "filter (unseen acc) (x # ms) = filter (unseen acc) ms"
      using False by simp
    with Cons[of acc] show ?thesis by (simp only: foldl_Cons sa)
  qed
qed

lemma foldl_Set_add_Nil: "foldl Set_add [] ms = first_seen ms"
  by (simp add: foldl_Set_add unseen_def)

lemma collect_mints_eq:
  "collect_mints acc entries = Inr r \<Longrightarrow> r = foldl Set_add acc (mints_of entries)"
proof (induction entries arbitrary: acc)
  case Nil
  then show ?case by (simp add: mints_of_def)
next
  case (Cons x xs)
  then show ?case
    by (cases x) (auto simp: mints_of_def split: if_splits)
qed

lemma collect_account_mints_eq:
  "collect_account_mints acc accountData = Inr r \<Longrightarrow>
     r = foldl Set_add acc (mints_of (concat (map (\<lambda>a. items (get a ''tokenBalanceChanges'')) accountData)))"
proof (induction accountData arbitrary: acc)
  case Nil
  then show ?case by (simp add: mints_of_def)
next
  case (Cons a as)
  from Cons.prems obtain tbc tcs m1 where
    g: "get_prop a ''tokenBalanceChanges'' = Inr tbc" and
    i: "iterate tbc = Inr tcs" and
    c: "collect_mints acc tcs = Inr m1" and
    rest: "collect_account_mints m1 as = Inr r"
    by (auto split: sum.splits)
  from g have tbc: "tbc = get a ''tokenBalanceChanges''" by (cases a) auto
  have m1: "m1 = foldl Set_add acc (mints_of tcs)" using c by (rule collect_mints_eq)
  have "r = foldl Set_add m1 (mints_of (concat (map (\<lambda>a. items (get a ''tokenBalanceChanges'')) as)))"
    using rest by (rule Cons.IH)
  then show ?case using i tbc m1 by (simp add: items_def mints_of_def)
qed


lemma collect_mints_first_seen:
  "collect_mints [] entries = Inr r \<Longrightarrow> r = first_seen (mints_of entries)"
  using collect_mints_eq[of "[]" entries r] by (simp add: foldl_Set_add_Nil)

lemma set_first_seen: "set (first_seen xs) \<subseteq> set xs"
  by (induction xs) auto

lemma first_seen_strings_distinct:
  "distinct (first_seen (map JStr ms)) \<and> set (first_seen (map JStr ms)) = JStr ` set ms"
proof (induction ms)
  case Nil
  then show ?case by simp
next
  case (Cons m ms)
  have "\<And>y. y \<in> set (first_seen (map JStr ms)) \<Longrightarrow> same_value_zero y (JStr m) = (y = JStr m)"
    using Cons by auto
  then have f: "filter (\<lambda>y. \<not> same_value_zero y (JStr m)) (first_seen (map JStr ms))
      = filter (\<lambda>y. y \<noteq> JStr m) (first_seen (map JStr ms))"
    by (intro filter_cong) auto
  show ?case using Cons by (auto simp: f)
qed

lemma iterate_count:
  "iterate v = Inr xs \<Longrightarrow> get v ''length'' = JNum (Finite (of_nat (entry_count v)))"
  by (cases v) auto

lemma entry_count_array: "array_of_records v \<Longrightarrow> entry_count v = length (items v)"
  by (cases v) (auto simp: items_def)

lemma raw_summary:
  assumes "summarizeRawTransaction event = Inr s"
  shows "s = JObj
     [(''signature'', get event ''signature''),
      (''slot'', get event ''slot''),
      (''commitment'', get event ''commitment''),
      (''tokenBalanceChanges'',
         JNum (Finite (of_nat (entry_count (get event ''tokenBalanceChanges''))))),
      (''mints'', JArr (take 5 (first_seen (mints_of (raw_entries event)))))]"
proof -
  let ?tbc = "get event ''tokenBalanceChanges''"
  from assms obtain changes mints where
    it: "iterate (nullish_or ?tbc (JArr [])) = Inr changes" and
    cm: "collect_mints [] changes = Inr mints" and
    s: "s = JObj
     [(''signature'', get event ''signature''),
      (''slot'', get event ''slot''),
      (''commitment'', get event ''commitment''),
      (''tokenBalanceChanges'', nullish_or (optional_get ?tbc ''length'') (JNum (Finite 0))),
      (''mints'', JArr (take 5 mints))]"
    by (auto simp: summarizeRawTransaction_def split: sum.splits)
  have entries: "raw_entries event = changes"
    using it by (simp add: raw_entries_def items_def)
  have count: "nullish_or (optional_get ?tbc ''length'') (JNum (Finite 0))
      = JNum (Finite (of_nat (entry_count ?tbc)))"
  proof (cases "?tbc = JUndefined \<or> ?tbc = JNull")
    case True
    then show ?thesis by (auto simp: nullish_or_def optional_get_def)
  next
    case False
    then have "iterate ?tbc = Inr changes" using it by (simp add: nullish_or_def)
    from iterate_count[OF this] False show ?thesis
      by (simp add: nullish_or_def optional_get_def)
  qed
  show ?thesis
    using s collect_mints_first_seen[OF cm] by (simp add: entries count)
qed

lemma enhanced_summary:
  assumes "summarizeEnhancedTransaction event = Inr s"
  shows "s = JObj
     [(''signature'', get event ''signature''),
      (''slot'', get event ''slot''),
      (''commitment'', get event ''commitment''),
      (''tokenTransfers'', JNum (Finite (of_nat (entry_count (get event ''tokenTransfers''))))),
      (''mints'', JArr (take 5 (first_seen (mints_of (enhanced_entries event)))))]"
proof -
  from assms obtain transfers mints1 accountData mints where
    it: "iterate (get event ''tokenTransfers'') = Inr transfers" and
    c1: "collect_mints [] transfers = Inr mints1" and
    ia: "iterate (get event ''accountData'') = Inr accountData" and
    c2: "collect_account_mints mints1 accountData = Inr mints" and
    s: "s = JObj
     [(''signature'', get event ''signature''),
      (''slot'', get event ''slot''),
      (''commitment'', get event ''commitment''),
      (''tokenTransfers'', get (get event ''tokenTransfers'') ''length''),
      (''mints'', JArr (take 5 mints))]"
    by (auto simp: summarizeEnhancedTransaction_def split: sum.splits)
  have m1: "mints1 = foldl Set_add [] (mints_of transfers)"
    using c1 by (rule collect_mints_eq)
  have "mints = foldl Set_add mints1
      (mints_of (concat (map (\<lambda>a. items (get a ''tokenBalanceChanges'')) accountData)))"
    using c2 by (rule collect_account_mints_eq)
  then have "mints = foldl Set_add [] (mints_of (enhanced_entries event))"
    using it ia by (simp add: m1 enhanced_entries_def items_def mints_of_def)
  then have "mints = first_seen (mints_of (enhanced_entries event))"
    by (simp add: foldl_Set_add_Nil)
  then show ?thesis
    using s iterate_count[OF it] by simp
qed

lemma record_get_prop: "isRecord x \<Longrightarrow> get_prop x k = Inr (get x k)"
  by (cases x) (auto simp: isRecord_def)

lemma collect_mints_records:
  "list_all isRecord entries \<Longrightarrow>
     collect_mints acc entries = Inr (foldl Set_add acc (mints_of entries))"
proof (induction entries arbitrary: acc)
  case Nil
  then show ?case by (simp add: mints_of_def)
next
  case (Cons x xs)
  then show ?case by (simp add: record_get_prop mints_of_def)
qed

lemma array_of_records_iterate:
  "array_of_records v \<Longrightarrow> iterate v = Inr (items v) \<and> list_all isRecord (items v)"
  by (cases v) (auto simp: items_def)

lemma collect_account_mints_records:
  "list_all (\<lambda>a. isRecord a \<and> array_of_records (get a ''tokenBalanceChanges'')) accountData \<Longrightarrow>
     collect_account_mints acc accountData
       = Inr (foldl Set_add acc
           (mints_of (concat (map (\<lambda>a. items (get a ''tokenBalanceChanges'')) accountData))))"
proof (induction accountData arbitrary: acc)
  case Nil
  then show ?case by (simp add: mints_of_def)
next
  case (Cons a as)
  then have r: "isRecord a" and t: "array_of_records (get a ''tokenBalanceChanges'')"
    and rest: "list_all (\<lambda>a. isRecord a \<and> array_of_records (get a ''tokenBalanceChanges'')) as"
    by simp_all
  note i = array_of_records_iterate[OF t]
  have c: "collect_mints acc (items (get a ''tokenBalanceChanges''))
      = Inr (foldl Set_add acc (mints_of (items (get a ''tokenBalanceChanges''))))"
    using i by (intro collect_mints_records) simp
  show ?case
    using i by (simp add: record_get_prop[OF r] c Cons.IH[OF rest] mints_of_def)
qed

lemma raw_shaped_summary:
  assumes "raw_shaped event"
  shows "summarizeRawTransaction event = Inr (JObj
     [(''signature'', get event ''signature''),
      (''slot'', get event ''slot''),
      (''commitment'', get event ''commitment''),
      (''tokenBalanceChanges'', JNum (Finite (of_nat (length (raw_entries event))))),
      (''mints'', JArr (take 5 (first_seen (mints_of (raw_entries event)))))])"
proof -
  let ?tbc = "get event ''tokenBalanceChanges''"
  have "\<exists>s. summarizeRawTransaction event = Inr s \<and> entry_count ?tbc = length (raw_entries event)"
  proof (cases "?tbc = JUndefined")
    case True
    then show ?thesis
      by (simp add: summarizeRawTransaction_def nullish_or_def raw_entries_def items_def)
  next
    case False
    with assms have a: "array_of_records ?tbc" by (simp add: raw_shaped_def)
    then have n: "nullish_or ?tbc (JArr []) = ?tbc" by (cases ?tbc) (auto simp: nullish_or_def)
    note i = array_of_records_iterate[OF a]
    have "collect_mints [] (items ?tbc) = Inr (foldl Set_add [] (mints_of (items ?tbc)))"
      using i by (intro collect_mints_records) simp
    with i show ?thesis
      by (simp add: summarizeRawTransaction_def n raw_entries_def entry_count_array[OF a])
  qed
  then obtain s where s: "summarizeRawTransaction event = Inr s"
    and c: "entry_count ?tbc = length (raw_entries event)" by blast
  from raw_summary[OF s] s c show ?thesis by simp
qed

lemma enhanced_shaped_summary:
  assumes "enhanced_shaped event"
  shows "summarizeEnhancedTransaction event = Inr (JObj
     [(''signature'', get event ''signature''),
      (''slot'', get event ''slot''),
      (''commitment'', get event ''commitment''),
      (''tokenTransfers'', JNum (Finite (of_nat (length (items (get event ''tokenTransfers'')))))),
      (''mints'', JArr (take 5 (first_seen (mints_of (enhanced_entries event)))))])"
proof -
  let ?tt = "get event ''tokenTransfers''" and ?ad = "get event ''accountData''"
  from assms have a: "array_of_records ?tt" and d: "account_data_shaped ?ad"
    by (simp_all add: enhanced_shaped_def)
  note i = array_of_records_iterate[OF a]
  have c1: "collect_mints [] (items ?tt) = Inr (foldl Set_add [] (mints_of (items ?tt)))"
    using i by (intro collect_mints_records) simp
  from d obtain as where ad: "?ad = JArr as"
    and l: "list_all (\<lambda>a. isRecord a \<and> array_of_records (get a ''tokenBalanceChanges'')) as"
    by (cases ?ad) auto
  have "\<exists>s. summarizeEnhancedTransaction event = Inr s"
    using i by (simp add: summarizeEnhancedTransaction_def c1 ad
        collect_account_mints_records[OF l])
  then obtain s where s: "summarizeEnhancedTransaction event = Inr s" by blast
  from enhanced_summary[OF s] s show ?thesis by (simp add: entry_count_array[OF a])
qed

text \<open>
  Claim C2.  For every event of the shape its type describes, the summarizer returns a
  summary: it carries the signature, the slot and the commitment of the event, the
  number of its balance changes (raw) or token transfers (enhanced), and as \<^verbatim>\<open>mints\<close> the
  first five of the distinct mints of the event's entries, each at the place where it
  was first met.  For a raw event the entries are its token balance changes, for an
  enhanced event its token transfers followed by the token balance changes of each
  account-data entry.  For any other value, whenever a summarizer returns at all, the
  summary has the same fields, the count being the \<^verbatim>\<open>length\<close> of the value iterated.  The
  \<^verbatim>\<open>mints\<close> list never has more than five members.  The witness has the example of the
  specification, mints met in the order A, B, A, C, D, E, F summarised as A, B, C, D, E,
  and an enhanced event whose mints come from its transfers and from three account-data
  entries.
\<close>

theorem summary_mints_distinct_first_seen_at_most_five:
  "(raw_shaped event \<longrightarrow>
      summarizeRawTransaction event = Inr (JObj
        [(''signature'', get event ''signature''),
         (''slot'', get event ''slot''),
         (''commitment'', get event ''commitment''),
         (''tokenBalanceChanges'', JNum (Finite (of_nat (length (raw_entries event))))),
         (''mints'', JArr (take 5 (first_seen (mints_of (raw_entries event)))))]))
   \<and> (enhanced_shaped event \<longrightarrow>
      summarizeEnhancedTransaction event = Inr (JObj
        [(''signature'', get event ''signature''),
         (''slot'', get event ''slot''),
         (''commitment'', get event ''commitment''),
         (''tokenTransfers'',
            JNum (Finite (of_nat (length (items (get event ''tokenTransfers'')))))),
         (''mints'', JArr (take 5 (first_seen (mints_of (enhanced_entries event)))))]))
   \<and> (summarizeRawTransaction event = Inr s \<longrightarrow>
      get s ''mints'' = JArr (take 5 (first_seen (mints_of (raw_entries event))))
      \<and> length (take 5 (first_seen (mints_of (raw_entries event)))) \<le> 5
      \<and> get s ''signature'' = get event ''signature''
      \<and> get s ''slot'' = get event ''slot''
      \<and> get s ''commitment'' = get event ''commitment''
      \<and> get s ''tokenBalanceChanges''
          = JNum (Finite (of_nat (entry_count (get event ''tokenBalanceChanges'')))))
   \<and> (summarizeEnhancedTransaction event = Inr s \<longrightarrow>
      get s ''mints'' = JArr (take 5 (first_seen (mints_of (enhanced_entries event))))
      \<and> length (take 5 (first_seen (mints_of (enhanced_entries event)))) \<le> 5
      \<and> get s ''signature'' = get event ''signature''
      \<and> get s ''slot'' = get event ''slot''
      \<and> get s ''commitment'' = get event ''commitment''
      \<and> get s ''tokenTransfers''
          = JNum (Finite (of_nat (entry_count (get event ''tokenTransfers'')))))"
proof (intro conjI impI)
  assume "raw_shaped event"
  then show "summarizeRawTransaction event = Inr (JObj
        [(''signature'', get event ''signature''),
         (''slot'', get event ''slot''),
         (''commitment'', get event ''commitment''),
         (''tokenBalanceChanges'', JNum (Finite (of_nat (length (raw_entries event))))),
         (''mints'', JArr (take 5 (first_seen (mints_of (raw_entries event)))))])"
    by (rule raw_shaped_summary)
next
  assume "enhanced_shaped event"
  then show "summarizeEnhancedTransaction event = Inr (JObj
        [(''signature'', get event ''signature''),
         (''slot'', get event ''slot''),
         (''commitment'', get event ''commitment''),
         (''tokenTransfers'',
            JNum (Finite (of_nat (length (items (get event ''tokenTransfers'')))))),
         (''mints'', JArr (take 5 (first_seen (mints_of (enhanced_entries event)))))])"
    by (rule enhanced_shaped_summary)
next
  assume a: "summarizeRawTransaction event = Inr s"
  note r = raw_summary[OF a]
  show "get s ''mints'' = JArr (take 5 (first_seen (mints_of (raw_entries event))))"
    by (subst r) simp
  show "get s ''signature'' = get event ''signature''" by (subst r) simp
  show "get s ''slot'' = get event ''slot''" by (subst r) simp
  show "get s ''commitment'' = get event ''commitment''" by (subst r) simp
  show "get s ''tokenBalanceChanges''
      = JNum (Finite (of_nat (entry_count (get event ''tokenBalanceChanges''))))"
    by (subst r) simp
next
  assume a: "summarizeEnhancedTransaction event = Inr s"
  note r = enhanced_summary[OF a]
  show "get s ''mints'' = JArr (take 5 (first_seen (mints_of (enhanced_entries event))))"
    by (subst r) simp
  show "get s ''signature'' = get event ''signature''" by (subst r) simp
  show "get s ''slot'' = get event ''slot''" by (subst r) simp
  show "get s ''commitment'' = get event ''commitment''" by (subst r) simp
  show "get s ''tokenTransfers''
          = JNum (Finite (of_nat (entry_count (get event ''tokenTransfers''))))"
    by (subst r) simp
qed simp_all

theorem summary_mints_distinct_first_seen_at_most_five_witness:
  "raw_shaped (raw_transaction_event [''A'', ''B'', ''A'', ''C'', ''D'', ''E'', ''F''])
   \<and> summarizeRawTransaction (raw_transaction_event [''A'', ''B'', ''A'', ''C'', ''D'', ''E'', ''F''])
     = Inr (JObj
         [(''signature'', JStr ''3L3RY''), (''slot'', JNum (Finite 392892992)),
          (''commitment'', JStr ''processed''), (''tokenBalanceChanges'', JNum (Finite 7)),
          (''mints'', JArr [JStr ''A'', JStr ''B'', JStr ''C'', JStr ''D'', JStr ''E''])])
   \<and> enhanced_shaped
        (enhanced_event_with_account_data [''A'', ''B''] [[''B'', ''C''], [], [''A'', ''D'', ''E'', ''F'']])
   \<and> summarizeEnhancedTransaction
        (enhanced_event_with_account_data [''A'', ''B''] [[''B'', ''C''], [], [''A'', ''D'', ''E'', ''F'']])
     = Inr (JObj
         [(''signature'', JStr ''5VERv''), (''slot'', JNum (Finite 392892993)),
          (''commitment'', JStr ''confirmed''), (''tokenTransfers'', JNum (Finite 2)),
          (''mints'', JArr [JStr ''A'', JStr ''B'', JStr ''C'', JStr ''D'', JStr ''E''])])"
proof -
  let ?r = "raw_transaction_event [''A'', ''B'', ''A'', ''C'', ''D'', ''E'', ''F'']"
  let ?n = "enhanced_event_with_account_data [''A'', ''B'']
      [[''B'', ''C''], [], [''A'', ''D'', ''E'', ''F'']]"
  have wr: "raw_shaped ?r"
    by (simp add: raw_shaped_def raw_transaction_event_def entry_with_mint_def isRecord_def)
  have wn: "enhanced_shaped ?n"
    by (simp add: enhanced_shaped_def enhanced_event_with_account_data_def entry_with_mint_def
        isRecord_def)
  have er: "take 5 (first_seen (mints_of (raw_entries ?r)))
      = [JStr ''A'', JStr ''B'', JStr ''C'', JStr ''D'', JStr ''E'']"
    and lr: "length (raw_entries ?r) = 7"
    by (simp_all add: raw_entries_def items_def nullish_or_def mints_of_def
        raw_transaction_event_def entry_with_mint_def)
  have en: "take 5 (first_seen (mints_of (enhanced_entries ?n)))
      = [JStr ''A'', JStr ''B'', JStr ''C'', JStr ''D'', JStr ''E'']"
    and ln: "length (items (get ?n ''tokenTransfers'')) = 2"
    by (simp_all add: enhanced_entries_def items_def mints_of_def
        enhanced_event_with_account_data_def entry_with_mint_def)
  have gr: "get ?r ''signature'' = JStr ''3L3RY''" "get ?r ''slot'' = JNum (Finite 392892992)"
    "get ?r ''commitment'' = JStr ''processed''"
    by (simp_all add: raw_transaction_event_def)
  have gn: "get ?n ''signature'' = JStr ''5VERv''" "get ?n ''slot'' = JNum (Finite 392892993)"
    "get ?n ''commitment'' = JStr ''confirmed''"
    by (simp_all add: enhanced_event_with_account_data_def)
  from summary_mints_distinct_first_seen_at_most_five[of ?r, THEN conjunct1] wr
  have 1: "summarizeRawTransaction ?r = Inr (JObj
         [(''signature'', JStr ''3L3RY''), (''slot'', JNum (Finite 392892992)),
          (''commitment'', JStr ''processed''), (''tokenBalanceChanges'', JNum (Finite 7)),
          (''mints'', JArr [JStr ''A'', JStr ''B'', JStr ''C'', JStr ''D'', JStr ''E''])])"
    by (simp only: er lr gr) simp
  from summary_mints_distinct_first_seen_at_most_five[of ?n, THEN conjunct2, THEN conjunct1] wn
  have 2: "summarizeEnhancedTransaction ?n = Inr (JObj
         [(''signature'', JStr ''5VERv''), (''slot'', JNum (Finite 392892993)),
          (''commitment'', JStr ''confirmed''), (''tokenTransfers'', JNum (Finite 2)),
          (''mints'', JArr [JStr ''A'', JStr ''B'', JStr ''C'', JStr ''D'', JStr ''E''])])"
    by (simp only: en ln gn) simp
  show ?thesis using wr wn 1 2 by simp
qed

subsection \<open>Session acquisition\<close>

lemma parseToken_empty_iff:
  "parseTokenFromWsUrl e wsUrl = [] \<longleftrightarrow>
     (URL_searchParams e wsUrl = None
      \<or> (\<exists>params. URL_searchParams e wsUrl = Some params
            \<and> (map_of params ''t'' = None \<or> map_of params ''t'' = Some [])))"
  by (auto simp: parseTokenFromWsUrl_def split: option.splits)

lemma requestWs402Schema_valid:
  assumes "URL_resolve e (X402_SCHEMA_PATH cfg) httpBase = Some url"
    and "fetchWithPayment e
           \<lparr>req_url = url, req_method = ''GET'', req_headers = [], req_body = None\<rparr> = Inr resp"
    and "resp_ok resp" and "resp_json resp = Inr data" and "isWs402StreamSchema data"
  shows "snd (requestWs402Schema e cfg httpBase) =
     (let wsUrl = the_string (get data ''websocketEndpoint'');
          token = parseTokenFromWsUrl e wsUrl
      in if token = [] then Inl (Error ''x402 schema missing token'')
         else Inr \<lparr>sr_wsUrl = wsUrl, sr_token = token,
                   sr_streamId = the_string (get (get data ''stream'') ''id'')\<rparr>)"
  using assms by (simp add: requestWs402Schema_def Let_def)

lemma sample_schema_valid: "isWs402StreamSchema (sample_schema wsUrl)"
  by (simp add: isWs402StreamSchema_def sample_schema_def isRecord_def isString_def isNumber_def)

text \<open>
  Claim C3.  Let the schema request be answered with a success status and a body that
  passes the shape validation.  Then the body's \<^verbatim>\<open>websocketEndpoint\<close> is a string, and if
  the URL parser finds in it a non-empty value for the query parameter \<^verbatim>\<open>t\<close>, session
  acquisition returns a descriptor whose token is exactly that value.  If the endpoint
  is not a URL, has no parameter \<^verbatim>\<open>t\<close> or has an empty one, token extraction gives the
  empty string and session acquisition fails with the error `x402 schema missing token'
  and returns no descriptor.
\<close>

theorem session_token_is_query_parameter_t:
  assumes "URL_resolve e (X402_SCHEMA_PATH cfg) httpBase = Some url"
    and "fetchWithPayment e
           \<lparr>req_url = url, req_method = ''GET'', req_headers = [], req_body = None\<rparr> = Inr resp"
    and "resp_ok resp" and "resp_json resp = Inr data" and "isWs402StreamSchema data"
  shows "(\<exists>wsUrl streamId. get data ''websocketEndpoint'' = JStr wsUrl
            \<and> get (get data ''stream'') ''id'' = JStr streamId
            \<and> (\<forall>params t. URL_searchParams e wsUrl = Some params \<and> map_of params ''t'' = Some t
                  \<and> t \<noteq> [] \<longrightarrow>
                  snd (requestWs402Schema e cfg httpBase)
                    = Inr \<lparr>sr_wsUrl = wsUrl, sr_token = t, sr_streamId = streamId\<rparr>)
            \<and> (URL_searchParams e wsUrl = None
                 \<or> (\<exists>params. URL_searchParams e wsUrl = Some params
                       \<and> (map_of params ''t'' = None \<or> map_of params ''t'' = Some []))
                 \<longrightarrow> parseTokenFromWsUrl e wsUrl = []
                   \<and> snd (requestWs402Schema e cfg httpBase)
                       = Inl (Error ''x402 schema missing token'')))"
proof -
  from assms(5) obtain wsUrl where w: "get data ''websocketEndpoint'' = JStr wsUrl"
    by (auto simp: isWs402StreamSchema_def isString_def typeof_string split: if_splits)
  from assms(5) obtain streamId where i: "get (get data ''stream'') ''id'' = JStr streamId"
    by (auto simp: isWs402StreamSchema_def isString_def typeof_string Let_def split: if_splits)
  note r = requestWs402Schema_valid[OF assms]
  have ok: "\<And>params t. URL_searchParams e wsUrl = Some params \<Longrightarrow> map_of params ''t'' = Some t
      \<Longrightarrow> t \<noteq> [] \<Longrightarrow> snd (requestWs402Schema e cfg httpBase)
                    = Inr \<lparr>sr_wsUrl = wsUrl, sr_token = t, sr_streamId = streamId\<rparr>"
    by (simp add: r w i parseTokenFromWsUrl_def)
  have bad: "parseTokenFromWsUrl e wsUrl = [] \<Longrightarrow>
     snd (requestWs402Schema e cfg httpBase) = Inl (Error ''x402 schema missing token'')"
    by (simp add: r w)
  show ?thesis
    using w i ok bad parseToken_empty_iff[of e wsUrl] by blast
qed

theorem session_token_is_query_parameter_t_witness:
  "isWs402StreamSchema (sample_schema ''wss://x402.atomicstream.net/ws?t=abc123'')
   \<and> resp_ok (json_response 200 (sample_schema ''wss://x402.atomicstream.net/ws?t=abc123''))
   \<and> snd (requestWs402Schema
            (schema_env ''wss://x402.atomicstream.net/ws?t=abc123'' [(''t'', ''abc123'')])
            default_config (HTTP_BASE default_config))
       = Inr \<lparr>sr_wsUrl = ''wss://x402.atomicstream.net/ws?t=abc123'', sr_token = ''abc123'',
               sr_streamId = ''mempool-sniff''\<rparr>
   \<and> snd (requestWs402Schema
            (schema_env ''wss://x402.atomicstream.net/ws?x=1'' [(''x'', ''1'')])
            default_config (HTTP_BASE default_config))
       = Inl (Error ''x402 schema missing token'')"
proof -
  let ?good = "''wss://x402.atomicstream.net/ws?t=abc123''"
  let ?bad = "''wss://x402.atomicstream.net/ws?x=1''"
  let ?url = "HTTP_BASE default_config @ X402_SCHEMA_PATH default_config"
  have ok: "resp_ok (json_response 200 (sample_schema ?good))"
    by (simp add: resp_ok_def json_response_def)
  have ok': "resp_ok (json_response 200 (sample_schema ?bad))"
    by (simp add: resp_ok_def json_response_def)
  have 1: "snd (requestWs402Schema (schema_env ?good [(''t'', ''abc123'')])
            default_config (HTTP_BASE default_config))
       = Inr \<lparr>sr_wsUrl = ?good, sr_token = ''abc123'', sr_streamId = ''mempool-sniff''\<rparr>"
    using session_token_is_query_parameter_t[of "schema_env ?good [(''t'', ''abc123'')]" default_config
        "HTTP_BASE default_config" ?url "json_response 200 (sample_schema ?good)"
        "sample_schema ?good"] ok sample_schema_valid[of ?good]
    by (simp add: schema_env_def offline_env_def json_response_def) (simp add: sample_schema_def)
  have 2: "snd (requestWs402Schema (schema_env ?bad [(''x'', ''1'')])
            default_config (HTTP_BASE default_config))
       = Inl (Error ''x402 schema missing token'')"
    using session_token_is_query_parameter_t[of "schema_env ?bad [(''x'', ''1'')]" default_config
        "HTTP_BASE default_config" ?url "json_response 200 (sample_schema ?bad)"
        "sample_schema ?bad"] ok' sample_schema_valid[of ?bad]
    by (simp add: schema_env_def offline_env_def json_response_def) (simp add: sample_schema_def)
  show ?thesis using 1 2 ok sample_schema_valid by simp
qed

subsection \<open>Renewal\<close>

lemma reaches_renewal_handler:
  assumes "reaches_renewal (safeJsonParse e buf)"
  shows "ws_on_message e cfg renewUrl currentToken buf
     = on_x402_event e cfg renewUrl currentToken (safeJsonParse e buf)"
  using assms by (simp add: ws_on_message_def reaches_renewal_def Let_def)

lemma httpRenew_failure_no_send:
  "httpRenew e renewUrl tok = (es, r) \<Longrightarrow> sent es = []"
  by (auto simp: httpRenew_def Let_def logInfo_def split: sum.splits if_splits)

lemma inbandRenewChallenge_no_send:
  "inbandRenewChallenge e renewUrl tok = (es, r) \<Longrightarrow> sent es = []"
  by (auto simp: inbandRenewChallenge_def Let_def logInfo_def split: sum.splits if_splits)

lemma sent_append: "sent (xs @ ys) = sent xs @ sent ys"
  by (induction xs rule: sent.induct) auto

lemma try_renew_failure:
  assumes "try_renew e cfg renewUrl tok = (es, tok', Some err)"
  shows "tok' = tok \<and> sent es = []"
proof (cases "RENEW_METHOD cfg = http")
  case True
  obtain hs r where h: "httpRenew e renewUrl tok = (hs, r)" by (cases "httpRenew e renewUrl tok")
  from assms True h show ?thesis
    using httpRenew_failure_no_send[OF h]
    by (cases r) (auto simp: try_renew_def Let_def)
next
  case False
  obtain hs r where h: "inbandRenewChallenge e renewUrl tok = (hs, r)"
    by (cases "inbandRenewChallenge e renewUrl tok")
  from assms False h show ?thesis
    using inbandRenewChallenge_no_send[OF h]
    by (cases r) (auto simp: try_renew_def Let_def sent_append logInfo_def split: sum.splits if_splits)
qed

lemma show_nat_500: "show_nat 500 = ''500''"
  by (simp add: show_nat.simps[of 500] show_nat.simps[of 50] show_nat.simps[of 5])

lemma reminder_reaches_renewal:
  "reaches_renewal (safeJsonParse (responding_env renewal_reminder_event resp) buf)"
  by (simp add: reaches_renewal_def safeJsonParse_def responding_env_def offline_env_def
      renewal_reminder_event_def isWsStatusEvent_def isWsTransactionEvent_def
      isWsAccountEvent_def isWsSlotEvent_def isWsTickerEvent_def isWsLeaderboardEvent_def
      isWsX402Event_def isRecord_def)

text \<open>
  Claim C4.  Let a message reach the renewal branch and let the renewal attempt, of
  either strategy, throw: a request that fails, a status that is not a success, a body
  that cannot be decoded or has the wrong shape, or any other error.  Then the handler
  catches the error: after the effects of the attempt it logs the warning `renew error'
  with the error's message and waits 1000 milliseconds, nothing is sent to the
  websocket, the current token is what it was, and the handler returns normally.  The
  next message, whatever it is and whatever the environment then answers, is handled
  exactly as it would have been before the failure.  The witness is the scenario of the
  specification: the renewal call answers with status 500, and a slot event that
  follows is classified as a slot event.
\<close>

theorem failed_renewal_is_caught_and_backed_off:
  assumes "reaches_renewal (safeJsonParse e buf)"
    and "try_renew e cfg renewUrl currentToken = (es, tok', Some err)"
  shows "ws_on_message e cfg renewUrl currentToken buf =
       \<lparr>run_effects =
          [Log info ''client'' ''ws event'' (JObj [(''op'', get (safeJsonParse e buf) ''op'')])]
          @ es
          @ [Log warn ''client'' ''renew error'' (JObj [(''message'', JStr (error_message err))]),
             Sleep 1000],
        run_token = currentToken, run_outcome = Returned\<rparr>
     \<and> sent es = []
     \<and> ws_on_message e' cfg renewUrl
          (run_token (ws_on_message e cfg renewUrl currentToken buf)) buf'
        = ws_on_message e' cfg renewUrl currentToken buf'"
proof -
  from try_renew_failure[OF assms(2)] have t: "tok' = currentToken" and s: "sent es = []"
    by simp_all
  have op: "get (safeJsonParse e buf) ''op'' = JStr ''renewal_reminder''
      \<or> get (safeJsonParse e buf) ''op'' = JStr ''payment_required''"
    using assms(1) by (simp add: reaches_renewal_def)
  have r: "ws_on_message e cfg renewUrl currentToken buf =
       \<lparr>run_effects =
          [Log info ''client'' ''ws event'' (JObj [(''op'', get (safeJsonParse e buf) ''op'')])]
          @ es
          @ [Log warn ''client'' ''renew error'' (JObj [(''message'', JStr (error_message err))]),
             Sleep 1000],
        run_token = currentToken, run_outcome = Returned\<rparr>"
    using op assms(2) t
    by (simp add: reaches_renewal_handler[OF assms(1)] on_x402_event_def Let_def
        catch_renew_error_def logInfo_def logWarn_def)
  show ?thesis using s by (simp add: r)
qed

theorem failed_renewal_is_caught_and_backed_off_witness:
  "reaches_renewal
     (safeJsonParse (responding_env renewal_reminder_event (json_response 500 JNull)) ''reminder'')
   \<and> try_renew (responding_env renewal_reminder_event (json_response 500 JNull)) default_config
        sample_renewUrl ''abc123''
     = ([Log info ''client'' ''requesting http renew'' (JObj [(''url'', JStr sample_renewUrl)]),
         FetchWithPayment (renew_request sample_renewUrl ''abc123'')],
        ''abc123'', Some (Error ''renew failed: 500''))
   \<and> ws_on_message (responding_env renewal_reminder_event (json_response 500 JNull))
        default_config sample_renewUrl ''abc123'' ''reminder''
     = \<lparr>run_effects =
          [Log info ''client'' ''ws event'' (JObj [(''op'', JStr ''renewal_reminder'')]),
           Log info ''client'' ''requesting http renew'' (JObj [(''url'', JStr sample_renewUrl)]),
           FetchWithPayment (renew_request sample_renewUrl ''abc123''),
           Log warn ''client'' ''renew error'' (JObj [(''message'', JStr ''renew failed: 500'')]),
           Sleep 1000],
        run_token = ''abc123'', run_outcome = Returned\<rparr>
   \<and> ws_on_message (decoding_env slot_event) default_config sample_renewUrl
        (run_token (ws_on_message (responding_env renewal_reminder_event (json_response 500 JNull))
           default_config sample_renewUrl ''abc123'' ''reminder'')) ''slot''
     = \<lparr>run_effects =
          [Log info ''client'' ''slot''
             (JObj [(''slot'', JNum (Finite 100)), (''parent'', JUndefined),
                    (''status'', JStr ''confirmed'')])],
        run_token = ''abc123'', run_outcome = Returned\<rparr>"
proof -
  let ?e = "responding_env renewal_reminder_event (json_response 500 JNull)"
  let ?es = "[Log info ''client'' ''requesting http renew'' (JObj [(''url'', JStr sample_renewUrl)]),
         FetchWithPayment (renew_request sample_renewUrl ''abc123'')]"
  have t: "try_renew ?e default_config sample_renewUrl ''abc123''
      = (?es, ''abc123'', Some (Error ''renew failed: 500''))"
    by (simp add: try_renew_def default_config_def httpRenew_def responding_env_def
        offline_env_def json_response_def resp_ok_def show_nat_500 logInfo_def Let_def)
  have s: "ws_on_message (decoding_env slot_event) default_config sample_renewUrl ''abc123'' ''slot''
     = \<lparr>run_effects =
          [Log info ''client'' ''slot''
             (JObj [(''slot'', JNum (Finite 100)), (''parent'', JUndefined),
                    (''status'', JStr ''confirmed'')])],
        run_token = ''abc123'', run_outcome = Returned\<rparr>"
    by (simp add: ws_on_message_def decoding_env_def offline_env_def safeJsonParse_def
        slot_event_def isWsStatusEvent_def isWsTransactionEvent_def isWsAccountEvent_def
        isWsSlotEvent_def isRecord_def logged_def logInfo_def slot_meta_def)
  have op: "get (safeJsonParse ?e ''reminder'') ''op'' = JStr ''renewal_reminder''"
    by (simp add: safeJsonParse_def responding_env_def offline_env_def renewal_reminder_event_def)
  from failed_renewal_is_caught_and_backed_off[OF reminder_reaches_renewal t, of "''reminder''" "decoding_env slot_event"
      "''slot''"]
  show ?thesis using reminder_reaches_renewal t s by (simp add: op)
qed

lemma isRenewResponse_shape:
  "isRenewResponse v = (string_member ''token'' v \<and> string_member ''expiresAt'' v
     \<and> number_member ''sliceSeconds'' v)"
  by (cases v) (auto simp: isRenewResponse_def isRecord_def string_member_def number_member_def
      typeof_string typeof_number split: option.splits jsval.splits)

lemma member_get:
  "member v k = Some x \<Longrightarrow> get v k = x"
  by (cases v) auto

lemma string_member_iff: "string_member k v = (\<exists>s. member v k = Some (JStr s))"
  by (auto simp: string_member_def split: option.splits jsval.splits)

lemma number_member_iff: "number_member k v = (\<exists>n. member v k = Some (JNum n))"
  by (auto simp: number_member_def split: option.splits jsval.splits)

lemma renew_shape_cases:
  "(case (member data ''token'', member data ''expiresAt'', member data ''sliceSeconds'') of
      (Some (JStr newToken), Some (JStr expiresAt), Some (JNum sliceSeconds)) \<Rightarrow>
         f newToken expiresAt sliceSeconds
    | _ \<Rightarrow> g)
   = (if isRenewResponse data
      then f (the_string (get data ''token'')) (the_string (get data ''expiresAt''))
             (case get data ''sliceSeconds'' of JNum n \<Rightarrow> n | _ \<Rightarrow> NaN)
      else g)"
proof (cases "isRenewResponse data")
  case True
  then obtain t x n where m: "member data ''token'' = Some (JStr t)"
      "member data ''expiresAt'' = Some (JStr x)" "member data ''sliceSeconds'' = Some (JNum n)"
    by (auto simp: isRenewResponse_shape string_member_iff number_member_iff)
  with True show ?thesis by (simp add: member_get)
next
  case False
  then have "\<not> (\<exists>t x n. member data ''token'' = Some (JStr t)
      \<and> member data ''expiresAt'' = Some (JStr x) \<and> member data ''sliceSeconds'' = Some (JNum n))"
    by (auto simp: isRenewResponse_shape string_member_iff number_member_iff)
  with False show ?thesis
    by (auto split: option.splits jsval.splits)
qed

lemma try_renew_http:
  assumes "RENEW_METHOD cfg = http"
  shows "try_renew e cfg renewUrl currentToken =
     (let req = \<lparr>req_url = renewUrl, req_method = ''POST'',
                 req_headers = [(''content-type'', ''application/json'')],
                 req_body = Some (JObj [(''token'', JStr currentToken)])\<rparr>;
          es = [Log info ''client'' ''requesting http renew'' (JObj [(''url'', JStr renewUrl)]),
                FetchWithPayment req]
      in case fetchWithPayment e req of
           Inl err \<Rightarrow> (es, currentToken, Some err)
         | Inr resp \<Rightarrow>
             if resp_status resp < 200 \<or> 299 < resp_status resp
             then (es, currentToken,
                   Some (Error (''renew failed: '' @ show_nat (resp_status resp))))
             else (case resp_json resp of
                     Inl err \<Rightarrow> (es, currentToken, Some err)
                   | Inr data \<Rightarrow>
                       (case (member data ''token'', member data ''expiresAt'',
                              member data ''sliceSeconds'') of
                          (Some (JStr newToken), Some (JStr expiresAt), Some (JNum sliceSeconds)) \<Rightarrow>
                            (es @ [Log info ''client'' ''http renew ok''
                                     (JObj [(''expiresAt'', JStr expiresAt),
                                            (''sliceSeconds'', JNum sliceSeconds)]),
                                   Log info ''client'' ''sending renew token'' JUndefined,
                                   WsSend (JObj [(''op'', JStr ''renew_token''),
                                                 (''token'', JStr newToken)])],
                             newToken, None)
                        | _ \<Rightarrow> (es, currentToken,
                                Some (Error ''renew response shape invalid'')))))"
proof -
  have g: "\<And>data. isRenewResponse data \<Longrightarrow>
      JStr (the_string (get data ''expiresAt'')) = get data ''expiresAt''
      \<and> JNum (case get data ''sliceSeconds'' of JNum n \<Rightarrow> n | _ \<Rightarrow> NaN) = get data ''sliceSeconds''"
    by (auto simp: isRenewResponse_shape string_member_iff number_member_iff member_get)
  show ?thesis
    unfolding renew_shape_cases
    using assms
    by (simp add: try_renew_def httpRenew_def Let_def renew_request_def resp_ok_def
        logInfo_def g not_le split: sum.splits)
qed

text \<open>
  Claim C6.  With the renewal method \<^verbatim>\<open>http\<close>, a renewal attempt gives the payment-wrapping
  fetch one POST to the renewal URL whose body is \<^verbatim>\<open>{ token: currentToken }\<close>.  If the
  call fails, if the status of the response is not a success, if its body cannot be
  decoded, or if the body lacks a string \<^verbatim>\<open>token\<close>, a string \<^verbatim>\<open>expiresAt\<close> or a numeric
  \<^verbatim>\<open>sliceSeconds\<close>, the attempt throws, nothing is sent and the current token stays what
  it was.  Otherwise the new token becomes the current token and a \<^verbatim>\<open>renew_token\<close>
  message carrying it is sent.  So the token changes only when the renewal succeeds.
  The renewal URL is the path \<^verbatim>\<open>/version/renew/stream/streamId\<close> resolved against the base
  URL.
\<close>

theorem http_renewal_posts_old_token_and_replaces_it_on_success:
  assumes "RENEW_METHOD cfg = http"
  shows "try_renew e cfg renewUrl currentToken =
     (let req = \<lparr>req_url = renewUrl, req_method = ''POST'',
                 req_headers = [(''content-type'', ''application/json'')],
                 req_body = Some (JObj [(''token'', JStr currentToken)])\<rparr>;
          es = [Log info ''client'' ''requesting http renew'' (JObj [(''url'', JStr renewUrl)]),
                FetchWithPayment req]
      in case fetchWithPayment e req of
           Inl err \<Rightarrow> (es, currentToken, Some err)
         | Inr resp \<Rightarrow>
             if resp_status resp < 200 \<or> 299 < resp_status resp
             then (es, currentToken,
                   Some (Error (''renew failed: '' @ show_nat (resp_status resp))))
             else (case resp_json resp of
                     Inl err \<Rightarrow> (es, currentToken, Some err)
                   | Inr data \<Rightarrow>
                       (case (member data ''token'', member data ''expiresAt'',
                              member data ''sliceSeconds'') of
                          (Some (JStr newToken), Some (JStr expiresAt), Some (JNum sliceSeconds)) \<Rightarrow>
                            (es @ [Log info ''client'' ''http renew ok''
                                     (JObj [(''expiresAt'', JStr expiresAt),
                                            (''sliceSeconds'', JNum sliceSeconds)]),
                                   Log info ''client'' ''sending renew token'' JUndefined,
                                   WsSend (JObj [(''op'', JStr ''renew_token''),
                                                 (''token'', JStr newToken)])],
                             newToken, None)
                        | _ \<Rightarrow> (es, currentToken,
                                Some (Error ''renew response shape invalid'')))))
   \<and> (\<forall>es tok' err. try_renew e cfg renewUrl currentToken = (es, tok', Some err)
         \<longrightarrow> tok' = currentToken \<and> sent es = [])
   \<and> (\<forall>httpBase streamId version u.
         (buildRenewUrl e httpBase streamId version = Inr u)
         = (URL_resolve e (''/'' @ version @ ''/renew/stream/'' @ streamId) httpBase = Some u))"
proof (intro conjI allI impI)
  show "try_renew e cfg renewUrl currentToken =
     (let req = \<lparr>req_url = renewUrl, req_method = ''POST'',
                 req_headers = [(''content-type'', ''application/json'')],
                 req_body = Some (JObj [(''token'', JStr currentToken)])\<rparr>;
          es = [Log info ''client'' ''requesting http renew'' (JObj [(''url'', JStr renewUrl)]),
                FetchWithPayment req]
      in case fetchWithPayment e req of
           Inl err \<Rightarrow> (es, currentToken, Some err)
         | Inr resp \<Rightarrow>
             if resp_status resp < 200 \<or> 299 < resp_status resp
             then (es, currentToken,
                   Some (Error (''renew failed: '' @ show_nat (resp_status resp))))
             else (case resp_json resp of
                     Inl err \<Rightarrow> (es, currentToken, Some err)
                   | Inr data \<Rightarrow>
                       (case (member data ''token'', member data ''expiresAt'',
                              member data ''sliceSeconds'') of
                          (Some (JStr newToken), Some (JStr expiresAt), Some (JNum sliceSeconds)) \<Rightarrow>
                            (es @ [Log info ''client'' ''http renew ok''
                                     (JObj [(''expiresAt'', JStr expiresAt),
                                            (''sliceSeconds'', JNum sliceSeconds)]),
                                   Log info ''client'' ''sending renew token'' JUndefined,
                                   WsSend (JObj [(''op'', JStr ''renew_token''),
                                                 (''token'', JStr newToken)])],
                             newToken, None)
                        | _ \<Rightarrow> (es, currentToken,
                                Some (Error ''renew response shape invalid'')))))"
    by (rule try_renew_http[OF assms])
next
  fix es tok' err
  assume "try_renew e cfg renewUrl currentToken = (es, tok', Some err)"
  from try_renew_failure[OF this] show "tok' = currentToken" "sent es = []" by simp_all
next
  fix httpBase streamId version u
  show "(buildRenewUrl e httpBase streamId version = Inr u)
         = (URL_resolve e (''/'' @ version @ ''/renew/stream/'' @ streamId) httpBase = Some u)"
    by (simp add: buildRenewUrl_def split: option.splits)
qed

theorem http_renewal_posts_old_token_and_replaces_it_on_success_witness:
  "RENEW_METHOD default_config = http
   \<and> try_renew (responding_env renewal_reminder_event (json_response 200 (renew_body ''def456'')))
        default_config sample_renewUrl ''abc123''
     = ([Log info ''client'' ''requesting http renew'' (JObj [(''url'', JStr sample_renewUrl)]),
         FetchWithPayment
           \<lparr>req_url = sample_renewUrl, req_method = ''POST'',
            req_headers = [(''content-type'', ''application/json'')],
            req_body = Some (JObj [(''token'', JStr ''abc123'')])\<rparr>,
         Log info ''client'' ''http renew ok''
           (JObj [(''expiresAt'', JStr ''2025-01-13T10:40:00.000Z''),
                  (''sliceSeconds'', JNum (Finite 300))]),
         Log info ''client'' ''sending renew token'' JUndefined,
         WsSend (JObj [(''op'', JStr ''renew_token''), (''token'', JStr ''def456'')])],
        ''def456'', None)
   \<and> try_renew (responding_env renewal_reminder_event (json_response 500 JNull))
        default_config sample_renewUrl ''abc123''
     = ([Log info ''client'' ''requesting http renew'' (JObj [(''url'', JStr sample_renewUrl)]),
         FetchWithPayment
           \<lparr>req_url = sample_renewUrl, req_method = ''POST'',
            req_headers = [(''content-type'', ''application/json'')],
            req_body = Some (JObj [(''token'', JStr ''abc123'')])\<rparr>],
        ''abc123'', Some (Error ''renew failed: 500''))
   \<and> try_renew (responding_env renewal_reminder_event
                   (json_response 200 (JObj [(''token'', JStr ''def456'')])))
        default_config sample_renewUrl ''abc123''
     = ([Log info ''client'' ''requesting http renew'' (JObj [(''url'', JStr sample_renewUrl)]),
         FetchWithPayment
           \<lparr>req_url = sample_renewUrl, req_method = ''POST'',
            req_headers = [(''content-type'', ''application/json'')],
            req_body = Some (JObj [(''token'', JStr ''abc123'')])\<rparr>],
        ''abc123'', Some (Error ''renew response shape invalid''))"
proof -
  have h: "RENEW_METHOD default_config = http" by (simp add: default_config_def)
  have s: "show_nat 500 = ''500''"
    by (simp add: show_nat.simps[of 500] show_nat.simps[of 50] show_nat.simps[of 5])
  note t = http_renewal_posts_old_token_and_replaces_it_on_success[OF h, THEN conjunct1]
  have 1: "try_renew (responding_env renewal_reminder_event (json_response 200 (renew_body ''def456'')))
        default_config sample_renewUrl ''abc123''
     = ([Log info ''client'' ''requesting http renew'' (JObj [(''url'', JStr sample_renewUrl)]),
         FetchWithPayment
           \<lparr>req_url = sample_renewUrl, req_method = ''POST'',
            req_headers = [(''content-type'', ''application/json'')],
            req_body = Some (JObj [(''token'', JStr ''abc123'')])\<rparr>,
         Log info ''client'' ''http renew ok''
           (JObj [(''expiresAt'', JStr ''2025-01-13T10:40:00.000Z''),
                  (''sliceSeconds'', JNum (Finite 300))]),
         Log info ''client'' ''sending renew token'' JUndefined,
         WsSend (JObj [(''op'', JStr ''renew_token''), (''token'', JStr ''def456'')])],
        ''def456'', None)"
    by (subst t) (simp add: responding_env_def offline_env_def json_response_def renew_body_def)
  have 2: "try_renew (responding_env renewal_reminder_event (json_response 500 JNull))
        default_config sample_renewUrl ''abc123''
     = ([Log info ''client'' ''requesting http renew'' (JObj [(''url'', JStr sample_renewUrl)]),
         FetchWithPayment
           \<lparr>req_url = sample_renewUrl, req_method = ''POST'',
            req_headers = [(''content-type'', ''application/json'')],
            req_body = Some (JObj [(''token'', JStr ''abc123'')])\<rparr>],
        ''abc123'', Some (Error ''renew failed: 500''))"
    by (subst t) (simp add: responding_env_def offline_env_def json_response_def s)
  have 3: "try_renew (responding_env renewal_reminder_event
                   (json_response 200 (JObj [(''token'', JStr ''def456'')])))
        default_config sample_renewUrl ''abc123''
     = ([Log info ''client'' ''requesting http renew'' (JObj [(''url'', JStr sample_renewUrl)]),
         FetchWithPayment
           \<lparr>req_url = sample_renewUrl, req_method = ''POST'',
            req_headers = [(''content-type'', ''application/json'')],
            req_body = Some (JObj [(''token'', JStr ''abc123'')])\<rparr>],
        ''abc123'', Some (Error ''renew response shape invalid''))"
    by (subst t) (simp add: responding_env_def offline_env_def json_response_def)
  show ?thesis using h 1 2 3 by simp
qed

lemma isPaymentRequired_shape:
  "isPaymentRequired v = (\<exists>r rs. member v ''accepts'' = Some (JArr (r # rs)))"
  by (cases v) (auto simp: isPaymentRequired_def isRecord_def isArray_iff neq_Nil_conv
      split: option.splits jsval.splits)

lemma inbandRenewChallenge_result:
  "inbandRenewChallenge e renewUrl tok =
     (case fetch e (renew_request renewUrl tok) of
        Inl err \<Rightarrow> ([Fetch (renew_request renewUrl tok)], Inl err)
      | Inr resp \<Rightarrow>
          (case inbandRenewChallenge_settled e (Inr resp) of
             (es, r) \<Rightarrow> (Fetch (renew_request renewUrl tok) # es, r)))"
  by (simp add: inbandRenewChallenge_def inbandRenewChallenge_settled_def Let_def
      split: sum.splits)

text \<open>
  Claim C7, as the code has it.  With the renewal method \<^verbatim>\<open>inband\<close>, a renewal attempt
  gives the plain fetch, never the payment-wrapping one, a POST to the renewal URL.  A
  response whose status is not 402 makes the attempt throw `expected 402 challenge'.
  On 402, if what the payment-required parser returns has no \<^verbatim>\<open>accepts\<close> array or an
  empty one, the attempt throws `payment-required response shape invalid'.  Otherwise
  the payment payload is created, and then the first member of \<^verbatim>\<open>accepts\<close> decides: if
  it is truthy, the client sends one \<^verbatim>\<open>renew_inband\<close> message whose
  \<^verbatim>\<open>paymentRequirements\<close> is exactly that member and whose \<^verbatim>\<open>paymentPayload\<close> is the
  payload; if it is falsy, the attempt throws `payment-required missing accepts' and
  nothing is sent.  A payload that cannot be created makes the attempt throw as well.
\<close>

theorem inband_renewal_challenges_and_sends_first_requirement:
  assumes "RENEW_METHOD cfg = inband"
    and "req = \<lparr>req_url = renewUrl, req_method = ''POST'',
                 req_headers = [(''content-type'', ''application/json'')],
                 req_body = Some (JObj [(''token'', JStr currentToken)])\<rparr>"
  shows "(\<exists>es. fst (try_renew e cfg renewUrl currentToken) = Fetch req # es
            \<and> (\<forall>r. FetchWithPayment r \<notin> set es))
   \<and> (\<forall>resp. fetch e req = Inr resp \<and> resp_status resp \<noteq> 402 \<longrightarrow>
         try_renew e cfg renewUrl currentToken
           = ([Fetch req], currentToken,
              Some (Error (''expected 402 challenge, got '' @ show_nat (resp_status resp)))))
   \<and> (\<forall>resp paymentRequired.
         fetch e req = Inr resp \<and> resp_status resp = 402
         \<and> getPaymentRequiredResponse e resp (json_or_undefined resp) = Inr paymentRequired
         \<and> (\<forall>r rs. member paymentRequired ''accepts'' \<noteq> Some (JArr (r # rs))) \<longrightarrow>
         try_renew e cfg renewUrl currentToken
           = ([Fetch req], currentToken,
              Some (Error ''payment-required response shape invalid'')))
   \<and> (\<forall>resp paymentRequired r rs paymentPayload.
         fetch e req = Inr resp \<and> resp_status resp = 402
         \<and> getPaymentRequiredResponse e resp (json_or_undefined resp) = Inr paymentRequired
         \<and> member paymentRequired ''accepts'' = Some (JArr (r # rs))
         \<and> createPaymentPayload e paymentRequired = Inr paymentPayload
         \<and> truthy r \<longrightarrow>
         try_renew e cfg renewUrl currentToken
           = ([Fetch req,
               Log info ''client'' ''received inband challenge''
                 (JObj [(''accepts'', JNum (Finite (of_nat (Suc (length rs)))))]),
               Log info ''client'' ''creating inband payment payload'' JUndefined,
               WsSend (JObj [(''op'', JStr ''renew_inband''),
                             (''paymentRequirements'', r),
                             (''paymentPayload'', paymentPayload)])],
              currentToken, None))
   \<and> (\<forall>resp paymentRequired r rs paymentPayload.
         fetch e req = Inr resp \<and> resp_status resp = 402
         \<and> getPaymentRequiredResponse e resp (json_or_undefined resp) = Inr paymentRequired
         \<and> member paymentRequired ''accepts'' = Some (JArr (r # rs))
         \<and> createPaymentPayload e paymentRequired = Inr paymentPayload
         \<and> \<not> truthy r \<longrightarrow>
         try_renew e cfg renewUrl currentToken
           = ([Fetch req,
               Log info ''client'' ''received inband challenge''
                 (JObj [(''accepts'', JNum (Finite (of_nat (Suc (length rs)))))]),
               Log info ''client'' ''creating inband payment payload'' JUndefined],
              currentToken, Some (Error ''payment-required missing accepts'')))
   \<and> (\<forall>resp paymentRequired r rs err.
         fetch e req = Inr resp \<and> resp_status resp = 402
         \<and> getPaymentRequiredResponse e resp (json_or_undefined resp) = Inr paymentRequired
         \<and> member paymentRequired ''accepts'' = Some (JArr (r # rs))
         \<and> createPaymentPayload e paymentRequired = Inl err \<longrightarrow>
         try_renew e cfg renewUrl currentToken
           = ([Fetch req,
               Log info ''client'' ''received inband challenge''
                 (JObj [(''accepts'', JNum (Finite (of_nat (Suc (length rs)))))]),
               Log info ''client'' ''creating inband payment payload'' JUndefined],
              currentToken, Some err))"
proof (intro conjI allI impI)
  have rq: "renew_request renewUrl currentToken = req"
    by (simp add: renew_request_def assms(2))
  show "\<exists>es. fst (try_renew e cfg renewUrl currentToken) = Fetch req # es
            \<and> (\<forall>r. FetchWithPayment r \<notin> set es)"
    using assms(1)
    by (auto simp: try_renew_def inbandRenewChallenge_result rq inbandRenewChallenge_settled_def
        Let_def logInfo_def split: sum.splits prod.splits if_splits)
  {
    fix resp
    assume "fetch e req = Inr resp \<and> resp_status resp \<noteq> 402"
    then show "try_renew e cfg renewUrl currentToken
           = ([Fetch req], currentToken,
              Some (Error (''expected 402 challenge, got '' @ show_nat (resp_status resp))))"
      using assms(1)
      by (simp add: try_renew_def inbandRenewChallenge_result rq inbandRenewChallenge_settled_def)
  }
  {
    fix resp paymentRequired
    assume "fetch e req = Inr resp \<and> resp_status resp = 402
         \<and> getPaymentRequiredResponse e resp (json_or_undefined resp) = Inr paymentRequired
         \<and> (\<forall>r rs. member paymentRequired ''accepts'' \<noteq> Some (JArr (r # rs)))"
    then show "try_renew e cfg renewUrl currentToken
           = ([Fetch req], currentToken,
              Some (Error ''payment-required response shape invalid''))"
      using assms(1)
      by (simp add: try_renew_def inbandRenewChallenge_result rq inbandRenewChallenge_settled_def
          isPaymentRequired_shape)
  }
  {
    fix resp paymentRequired r rs paymentPayload
    assume a: "fetch e req = Inr resp \<and> resp_status resp = 402
         \<and> getPaymentRequiredResponse e resp (json_or_undefined resp) = Inr paymentRequired
         \<and> member paymentRequired ''accepts'' = Some (JArr (r # rs))
         \<and> createPaymentPayload e paymentRequired = Inr paymentPayload
         \<and> truthy r"
    then have p: "isPaymentRequired paymentRequired"
      by (auto simp: isPaymentRequired_shape)
    from a have g: "get paymentRequired ''accepts'' = JArr (r # rs)"
      by (simp add: member_get)
    show "try_renew e cfg renewUrl currentToken
           = ([Fetch req,
               Log info ''client'' ''received inband challenge''
                 (JObj [(''accepts'', JNum (Finite (of_nat (Suc (length rs)))))]),
               Log info ''client'' ''creating inband payment payload'' JUndefined,
               WsSend (JObj [(''op'', JStr ''renew_inband''),
                             (''paymentRequirements'', r),
                             (''paymentPayload'', paymentPayload)])],
              currentToken, None)"
      using assms(1) a p
      by (simp add: try_renew_def inbandRenewChallenge_result rq inbandRenewChallenge_settled_def
          g first_element_def logInfo_def)
  }
  {
    fix resp paymentRequired r rs paymentPayload
    assume a: "fetch e req = Inr resp \<and> resp_status resp = 402
         \<and> getPaymentRequiredResponse e resp (json_or_undefined resp) = Inr paymentRequired
         \<and> member paymentRequired ''accepts'' = Some (JArr (r # rs))
         \<and> createPaymentPayload e paymentRequired = Inr paymentPayload
         \<and> \<not> truthy r"
    then have p: "isPaymentRequired paymentRequired"
      by (auto simp: isPaymentRequired_shape)
    from a have g: "get paymentRequired ''accepts'' = JArr (r # rs)"
      by (simp add: member_get)
    show "try_renew e cfg renewUrl currentToken
           = ([Fetch req,
               Log info ''client'' ''received inband challenge''
                 (JObj [(''accepts'', JNum (Finite (of_nat (Suc (length rs)))))]),
               Log info ''client'' ''creating inband payment payload'' JUndefined],
              currentToken, Some (Error ''payment-required missing accepts''))"
      using assms(1) a p
      by (simp add: try_renew_def inbandRenewChallenge_result rq inbandRenewChallenge_settled_def
          g first_element_def logInfo_def)
  }
  {
    fix resp paymentRequired r rs err
    assume a: "fetch e req = Inr resp \<and> resp_status resp = 402
         \<and> getPaymentRequiredResponse e resp (json_or_undefined resp) = Inr paymentRequired
         \<and> member paymentRequired ''accepts'' = Some (JArr (r # rs))
         \<and> createPaymentPayload e paymentRequired = Inl err"
    then have p: "isPaymentRequired paymentRequired"
      by (auto simp: isPaymentRequired_shape)
    from a have g: "get paymentRequired ''accepts'' = JArr (r # rs)"
      by (simp add: member_get)
    show "try_renew e cfg renewUrl currentToken
           = ([Fetch req,
               Log info ''client'' ''received inband challenge''
                 (JObj [(''accepts'', JNum (Finite (of_nat (Suc (length rs)))))]),
               Log info ''client'' ''creating inband payment payload'' JUndefined],
              currentToken, Some err)"
      using assms(1) a p
      by (simp add: try_renew_def inbandRenewChallenge_result rq inbandRenewChallenge_settled_def
          g logInfo_def)
  }
qed

theorem inband_renewal_challenges_and_sends_first_requirement_witness:
  "RENEW_METHOD inband_config = inband
   \<and> try_renew
        (responding_env renewal_reminder_event
           (json_response 402
              (challenge_body [sample_requirement ''solana'', sample_requirement ''solana-devnet''])))
        inband_config sample_renewUrl ''abc123''
     = ([Fetch \<lparr>req_url = sample_renewUrl, req_method = ''POST'',
                 req_headers = [(''content-type'', ''application/json'')],
                 req_body = Some (JObj [(''token'', JStr ''abc123'')])\<rparr>,
         Log info ''client'' ''received inband challenge'' (JObj [(''accepts'', JNum (Finite 2))]),
         Log info ''client'' ''creating inband payment payload'' JUndefined,
         WsSend (JObj [(''op'', JStr ''renew_inband''),
                       (''paymentRequirements'', sample_requirement ''solana''),
                       (''paymentPayload'', signed_payload)])],
        ''abc123'', None)
   \<and> try_renew (responding_env renewal_reminder_event (json_response 402 (challenge_body [])))
        inband_config sample_renewUrl ''abc123''
     = ([Fetch \<lparr>req_url = sample_renewUrl, req_method = ''POST'',
                 req_headers = [(''content-type'', ''application/json'')],
                 req_body = Some (JObj [(''token'', JStr ''abc123'')])\<rparr>],
        ''abc123'', Some (Error ''payment-required response shape invalid''))
   \<and> try_renew (responding_env renewal_reminder_event (json_response 200 (renew_body ''def456'')))
        inband_config sample_renewUrl ''abc123''
     = ([Fetch \<lparr>req_url = sample_renewUrl, req_method = ''POST'',
                 req_headers = [(''content-type'', ''application/json'')],
                 req_body = Some (JObj [(''token'', JStr ''abc123'')])\<rparr>],
        ''abc123'', Some (Error ''expected 402 challenge, got 200''))
   \<and> try_renew (responding_env renewal_reminder_event (json_response 402 (challenge_body [JNull])))
        inband_config sample_renewUrl ''abc123''
     = ([Fetch \<lparr>req_url = sample_renewUrl, req_method = ''POST'',
                 req_headers = [(''content-type'', ''application/json'')],
                 req_body = Some (JObj [(''token'', JStr ''abc123'')])\<rparr>,
         Log info ''client'' ''received inband challenge'' (JObj [(''accepts'', JNum (Finite 1))]),
         Log info ''client'' ''creating inband payment payload'' JUndefined],
        ''abc123'', Some (Error ''payment-required missing accepts''))
   \<and> try_renew
        ((responding_env renewal_reminder_event
            (json_response 402 (challenge_body [sample_requirement ''solana''])))
           \<lparr>createPaymentPayload := (\<lambda>paymentRequired. Inl (Error ''no scheme registered''))\<rparr>)
        inband_config sample_renewUrl ''abc123''
     = ([Fetch \<lparr>req_url = sample_renewUrl, req_method = ''POST'',
                 req_headers = [(''content-type'', ''application/json'')],
                 req_body = Some (JObj [(''token'', JStr ''abc123'')])\<rparr>,
         Log info ''client'' ''received inband challenge'' (JObj [(''accepts'', JNum (Finite 1))]),
         Log info ''client'' ''creating inband payment payload'' JUndefined],
        ''abc123'', Some (Error ''no scheme registered''))"
proof -
  let ?req = "\<lparr>req_url = sample_renewUrl, req_method = ''POST'',
                 req_headers = [(''content-type'', ''application/json'')],
                 req_body = Some (JObj [(''token'', JStr ''abc123'')])\<rparr>"
  let ?accepts = "[sample_requirement ''solana'', sample_requirement ''solana-devnet'']"
  let ?e1 = "responding_env renewal_reminder_event (json_response 402 (challenge_body ?accepts))"
  let ?e2 = "responding_env renewal_reminder_event (json_response 402 (challenge_body []))"
  let ?e3 = "responding_env renewal_reminder_event (json_response 200 (renew_body ''def456''))"
  let ?e4 = "responding_env renewal_reminder_event (json_response 402 (challenge_body [JNull]))"
  let ?e5 = "(responding_env renewal_reminder_event
            (json_response 402 (challenge_body [sample_requirement ''solana''])))
           \<lparr>createPaymentPayload := (\<lambda>paymentRequired. Inl (Error ''no scheme registered''))\<rparr>"
  have h: "RENEW_METHOD inband_config = inband"
    by (simp add: inband_config_def)
  have s: "show_nat 200 = ''200''"
    by (simp add: show_nat.simps[of 200] show_nat.simps[of 20] show_nat.simps[of 2])
  note t = inband_renewal_challenges_and_sends_first_requirement
    [OF h refl, of _ sample_renewUrl "''abc123''"]
  have 1: "try_renew ?e1 inband_config sample_renewUrl ''abc123''
     = ([Fetch ?req,
         Log info ''client'' ''received inband challenge'' (JObj [(''accepts'', JNum (Finite 2))]),
         Log info ''client'' ''creating inband payment payload'' JUndefined,
         WsSend (JObj [(''op'', JStr ''renew_inband''),
                       (''paymentRequirements'', sample_requirement ''solana''),
                       (''paymentPayload'', signed_payload)])],
        ''abc123'', None)"
    using t[of ?e1, THEN conjunct2, THEN conjunct2, THEN conjunct2, THEN conjunct1, rule_format,
        of "json_response 402 (challenge_body ?accepts)" "challenge_body ?accepts"
           "sample_requirement ''solana''" "[sample_requirement ''solana-devnet'']" signed_payload]
    by (simp add: responding_env_def offline_env_def json_response_def json_or_undefined_def
        challenge_body_def sample_requirement_def)
  have 2: "try_renew ?e2 inband_config sample_renewUrl ''abc123''
     = ([Fetch ?req], ''abc123'', Some (Error ''payment-required response shape invalid''))"
    using t[of ?e2, THEN conjunct2, THEN conjunct2, THEN conjunct1, rule_format,
        of "json_response 402 (challenge_body [])" "challenge_body []"]
    by (simp add: responding_env_def offline_env_def json_response_def json_or_undefined_def
        challenge_body_def)
  have 3: "try_renew ?e3 inband_config sample_renewUrl ''abc123''
     = ([Fetch ?req], ''abc123'', Some (Error ''expected 402 challenge, got 200''))"
    using t[of ?e3, THEN conjunct2, THEN conjunct1, rule_format,
        of "json_response 200 (renew_body ''def456'')"]
    by (simp add: responding_env_def offline_env_def json_response_def s)
  have 4: "try_renew ?e4 inband_config sample_renewUrl ''abc123''
     = ([Fetch ?req,
         Log info ''client'' ''received inband challenge'' (JObj [(''accepts'', JNum (Finite 1))]),
         Log info ''client'' ''creating inband payment payload'' JUndefined],
        ''abc123'', Some (Error ''payment-required missing accepts''))"
    using t[of ?e4, THEN conjunct2, THEN conjunct2, THEN conjunct2, THEN conjunct2,
        THEN conjunct1, rule_format,
        of "json_response 402 (challenge_body [JNull])" "challenge_body [JNull]"
           JNull "[]" signed_payload]
    by (simp add: responding_env_def offline_env_def json_response_def json_or_undefined_def
        challenge_body_def)
  have 5: "try_renew ?e5 inband_config sample_renewUrl ''abc123''
     = ([Fetch ?req,
         Log info ''client'' ''received inband challenge'' (JObj [(''accepts'', JNum (Finite 1))]),
         Log info ''client'' ''creating inband payment payload'' JUndefined],
        ''abc123'', Some (Error ''no scheme registered''))"
    using t[of ?e5, THEN conjunct2, THEN conjunct2, THEN conjunct2, THEN conjunct2,
        THEN conjunct2, rule_format,
        of "json_response 402 (challenge_body [sample_requirement ''solana''])"
           "challenge_body [sample_requirement ''solana'']"
           "sample_requirement ''solana''" "[]" "Error ''no scheme registered''"]
    by (simp add: responding_env_def offline_env_def json_response_def json_or_undefined_def
        challenge_body_def)
  show ?thesis using h 1 2 3 4 5 by simp
qed

text \<open>
  Claim C7 as stated, that with a non-empty \<^verbatim>\<open>accepts\<close> list the client sends
  \<^verbatim>\<open>renew_inband\<close> with its first member, fails: on a 402 challenge whose \<^verbatim>\<open>accepts\<close> is
  \<^verbatim>\<open>[null, requirement]\<close> the list is accepted as non-empty and the payload is created,
  but the first member is null, the attempt throws `payment-required missing accepts',
  and nothing is sent.
\<close>

theorem inband_null_first_requirement_counterexample:
  "isPaymentRequired (challenge_body [JNull, sample_requirement ''solana''])
   \<and> try_renew
        (responding_env renewal_reminder_event
           (json_response 402 (challenge_body [JNull, sample_requirement ''solana''])))
        inband_config sample_renewUrl ''abc123''
     = ([Fetch (renew_request sample_renewUrl ''abc123''),
         Log info ''client'' ''received inband challenge'' (JObj [(''accepts'', JNum (Finite 2))]),
         Log info ''client'' ''creating inband payment payload'' JUndefined],
        ''abc123'', Some (Error ''payment-required missing accepts''))
   \<and> sent (run_effects
        (ws_on_message
           (responding_env renewal_reminder_event
              (json_response 402 (challenge_body [JNull, sample_requirement ''solana''])))
           inband_config sample_renewUrl ''abc123'' ''reminder'')) = []"
proof -
  let ?body = "challenge_body [JNull, sample_requirement ''solana'']"
  let ?e = "responding_env renewal_reminder_event (json_response 402 ?body)"
  have p: "isPaymentRequired ?body"
    by (simp add: isPaymentRequired_def isRecord_def challenge_body_def)
  have f: "fetch ?e = (\<lambda>req. Inr (json_response 402 ?body))"
    and g: "getPaymentRequiredResponse ?e = (\<lambda>r body. Inr body)"
    and c: "createPaymentPayload ?e = (\<lambda>paymentRequired. Inr signed_payload)"
    by (simp_all add: responding_env_def offline_env_def)
  have j: "json_or_undefined (json_response 402 ?body) = ?body"
    "resp_status (json_response 402 ?body) = 402"
    by (simp_all add: json_or_undefined_def json_response_def)
  have a: "get ?body ''accepts'' = JArr [JNull, sample_requirement ''solana'']"
    by (simp add: challenge_body_def)
  have m: "RENEW_METHOD inband_config \<noteq> http"
    by (simp add: inband_config_def default_config_def)
  have t: "try_renew ?e inband_config sample_renewUrl ''abc123''
     = ([Fetch (renew_request sample_renewUrl ''abc123''),
         Log info ''client'' ''received inband challenge'' (JObj [(''accepts'', JNum (Finite 2))]),
         Log info ''client'' ''creating inband payment payload'' JUndefined],
        ''abc123'', Some (Error ''payment-required missing accepts''))"
    using p
    by (simp add: try_renew_def m inbandRenewChallenge_def f g c j a first_element_def Let_def
        logInfo_def)
  have "ws_on_message ?e inband_config sample_renewUrl ''abc123'' ''reminder''
      = on_x402_event ?e inband_config sample_renewUrl ''abc123''
          (safeJsonParse ?e ''reminder'')"
    by (rule reaches_renewal_handler) (rule reminder_reaches_renewal)
  moreover have "safeJsonParse ?e ''reminder'' = renewal_reminder_event"
    by (simp add: safeJsonParse_def responding_env_def offline_env_def)
  moreover have "get renewal_reminder_event ''op'' = JStr ''renewal_reminder''"
    by (simp add: renewal_reminder_event_def)
  ultimately have "sent (run_effects
      (ws_on_message ?e inband_config sample_renewUrl ''abc123'' ''reminder'')) = []"
    by (simp add: on_x402_event_def t Let_def logInfo_def catch_renew_error_def logWarn_def)
  with p t show ?thesis by simp
qed

subsection \<open>Connection opening\<close>

text \<open>
  Claim C8.  When the connection opens, the messages sent are, in this order: one
  \<^verbatim>\<open>setOptions\<close> message carrying all six output options, one \<^verbatim>\<open>setAccounts\<close> message
  if and only if there are accounts to watch, one \<^verbatim>\<open>setPrograms\<close> message if and only if
  there are programs to watch, and one \<^verbatim>\<open>getState\<close> request.  The warning `no watchlists
  configured' is logged exactly when both watchlists are empty; the handler has no
  failing branch, and \<^verbatim>\<open>getState\<close> is sent in that case as in every other.
\<close>

theorem open_sends_options_watchlists_then_getState:
  "sent (ws_on_open cfg) =
     [JObj [(''op'', JStr ''setOptions''),
            (''includeAccounts'', JBool (INCLUDE_ACCOUNTS cfg)),
            (''includeTokenBalanceChanges'', JBool (INCLUDE_TOKEN_BALANCE_CHANGES cfg)),
            (''includeLogs'', JBool (INCLUDE_LOGS cfg)),
            (''includeInstructions'', JBool (INCLUDE_INSTRUCTIONS cfg)),
            (''eventFormat'', JStr (EventFormat_str (EVENT_FORMAT cfg))),
            (''filterTokenBalances'', JBool (FILTER_TOKEN_BALANCES cfg))]]
     @ (if WATCH_ACCOUNTS cfg = [] then []
        else [JObj [(''op'', JStr ''setAccounts''),
                    (''accounts'', JArr (map JStr (WATCH_ACCOUNTS cfg)))]])
     @ (if WATCH_PROGRAMS cfg = [] then []
        else [JObj [(''op'', JStr ''setPrograms''),
                    (''programs'', JArr (map JStr (WATCH_PROGRAMS cfg)))]])
     @ [JObj [(''op'', JStr ''getState'')]]
   \<and> (Log warn ''client'' ''no watchlists configured (WATCH_ACCOUNTS/WATCH_PROGRAMS empty)''
         JUndefined \<in> set (ws_on_open cfg))
     = (WATCH_ACCOUNTS cfg = [] \<and> WATCH_PROGRAMS cfg = [])"
  by (simp add: ws_on_open_def sent_append setOptions_fields_def logInfo_def logWarn_def)

theorem open_sends_options_watchlists_then_getState_witness:
  "sent (ws_on_open default_config) =
     [JObj [(''op'', JStr ''setOptions''), (''includeAccounts'', JBool True),
            (''includeTokenBalanceChanges'', JBool True), (''includeLogs'', JBool False),
            (''includeInstructions'', JBool False), (''eventFormat'', JStr ''enhanced''),
            (''filterTokenBalances'', JBool False)],
      JObj [(''op'', JStr ''getState'')]]
   \<and> sent (ws_on_open
        (default_config\<lparr>WATCH_ACCOUNTS := [''4vJ9JU1bJJE96FWSJKvHsmmFADCg4gpZQff4P3bkLKi''],
                         WATCH_PROGRAMS := [''programId1'']\<rparr>)) =
     [JObj [(''op'', JStr ''setOptions''), (''includeAccounts'', JBool True),
            (''includeTokenBalanceChanges'', JBool True), (''includeLogs'', JBool False),
            (''includeInstructions'', JBool False), (''eventFormat'', JStr ''enhanced''),
            (''filterTokenBalances'', JBool False)],
      JObj [(''op'', JStr ''setAccounts''),
            (''accounts'', JArr [JStr ''4vJ9JU1bJJE96FWSJKvHsmmFADCg4gpZQff4P3bkLKi''])],
      JObj [(''op'', JStr ''setPrograms''), (''programs'', JArr [JStr ''programId1''])],
      JObj [(''op'', JStr ''getState'')]]"
  using open_sends_options_watchlists_then_getState[of default_config]
    open_sends_options_watchlists_then_getState[of "default_config\<lparr>WATCH_ACCOUNTS := [''4vJ9JU1bJJE96FWSJKvHsmmFADCg4gpZQff4P3bkLKi''],
                         WATCH_PROGRAMS := [''programId1'']\<rparr>"]
  by (simp add: default_config_def)

subsection \<open>Enhanced and raw transaction events\<close>

lemma has_property_member: "has_property k v = (member v k \<noteq> None)"
  by (cases v) (auto simp: map_of_eq_None_iff)

lemma transaction_branch:
  assumes "isWsTransactionEvent (safeJsonParse e buf)"
  shows "ws_on_message e cfg renewUrl currentToken buf
     = on_transaction cfg currentToken (safeJsonParse e buf)"
proof -
  have "\<not> isWsStatusEvent (safeJsonParse e buf)"
    using assms by (auto simp: isWsStatusEvent_def isWsTransactionEvent_def split: if_splits)
  with assms show ?thesis by (simp add: ws_on_message_def Let_def)
qed

lemma raw_summary_keys:
  "summarizeRawTransaction d = Inr s \<Longrightarrow>
     member s ''tokenBalanceChanges'' \<noteq> None \<and> member s ''tokenTransfers'' = None"
  by (auto simp: summarizeRawTransaction_def split: sum.splits)

lemma enhanced_summary_keys:
  "summarizeEnhancedTransaction d = Inr s \<Longrightarrow>
     member s ''tokenTransfers'' \<noteq> None \<and> member s ''tokenBalanceChanges'' = None"
  by (auto simp: summarizeEnhancedTransaction_def split: sum.splits)

text \<open>
  Claim C9.  Let a message decode to a value that is classified as a transaction event.
  In summary mode the event is summarised by the enhanced summarizer exactly when it
  has a \<^verbatim>\<open>nativeTransfers\<close> property (whatever its value), and by the raw summarizer
  otherwise; the logged summary tells which, since only an enhanced summary has a
  \<^verbatim>\<open>tokenTransfers\<close> field and only a raw summary a \<^verbatim>\<open>tokenBalanceChanges\<close> field.  In full
  mode the whole event is logged and neither summarizer runs.
\<close>

theorem transaction_enhanced_iff_nativeTransfers:
  assumes "JSON_parse e buf = Some decoded"
    and "isWsTransactionEvent decoded"
  shows "(TX_LOG_MODE cfg = summary \<longrightarrow>
           ws_on_message e cfg renewUrl currentToken buf =
             (case (if member decoded ''nativeTransfers'' \<noteq> None
                    then summarizeEnhancedTransaction decoded
                    else summarizeRawTransaction decoded) of
                Inl err \<Rightarrow>
                  \<lparr>run_effects = [], run_token = currentToken, run_outcome = Rejected err\<rparr>
              | Inr s \<Rightarrow>
                  \<lparr>run_effects = [Log info ''client'' ''transaction'' s],
                   run_token = currentToken, run_outcome = Returned\<rparr>))
   \<and> (TX_LOG_MODE cfg = full \<longrightarrow>
           ws_on_message e cfg renewUrl currentToken buf =
             \<lparr>run_effects = [Log info ''client'' ''transaction'' (JObj [(''event'', decoded)])],
              run_token = currentToken, run_outcome = Returned\<rparr>)
   \<and> (\<forall>s. summarizeEnhancedTransaction decoded = Inr s \<longrightarrow>
           member s ''tokenTransfers'' \<noteq> None \<and> member s ''tokenBalanceChanges'' = None)
   \<and> (\<forall>s. summarizeRawTransaction decoded = Inr s \<longrightarrow>
           member s ''tokenBalanceChanges'' \<noteq> None \<and> member s ''tokenTransfers'' = None)"
proof -
  have d: "safeJsonParse e buf = decoded"
    using assms(1) by (simp add: safeJsonParse_def)
  have b: "ws_on_message e cfg renewUrl currentToken buf = on_transaction cfg currentToken decoded"
    using transaction_branch[of e buf cfg renewUrl currentToken] assms(2) by (simp add: d)
  have m: "TX_LOG_MODE cfg \<noteq> full \<longleftrightarrow> TX_LOG_MODE cfg = summary"
    by (cases "TX_LOG_MODE cfg") auto
  show ?thesis
    using raw_summary_keys[of decoded] enhanced_summary_keys[of decoded]
    by (auto simp: b on_transaction_def isEnhancedTransactionEvent_def has_property_member
        logInfo_def split: sum.splits)
qed

theorem transaction_enhanced_iff_nativeTransfers_witness:
  "JSON_parse (decoding_env (raw_transaction_event [''A'', ''B''])) ''tx'' 
     = Some (raw_transaction_event [''A'', ''B''])
   \<and> isWsTransactionEvent (raw_transaction_event [''A'', ''B''])
   \<and> isWsTransactionEvent (enhanced_transaction_event [''A'', ''B''])
   \<and> member (raw_transaction_event [''A'', ''B'']) ''nativeTransfers'' = None
   \<and> member (enhanced_transaction_event [''A'', ''B'']) ''nativeTransfers'' = Some (JArr [])
   \<and> ws_on_message (decoding_env (raw_transaction_event [''A'', ''B'']))
        (default_config\<lparr>TX_LOG_MODE := summary\<rparr>) sample_renewUrl ''abc123'' ''tx''
     = \<lparr>run_effects =
          [Log info ''client'' ''transaction''
             (JObj [(''signature'', JStr ''3L3RY''), (''slot'', JNum (Finite 392892992)),
                    (''commitment'', JStr ''processed''),
                    (''tokenBalanceChanges'', JNum (Finite 2)),
                    (''mints'', JArr [JStr ''A'', JStr ''B''])])],
        run_token = ''abc123'', run_outcome = Returned\<rparr>
   \<and> ws_on_message (decoding_env (enhanced_transaction_event [''A'', ''B'']))
        (default_config\<lparr>TX_LOG_MODE := summary\<rparr>) sample_renewUrl ''abc123'' ''tx''
     = \<lparr>run_effects =
          [Log info ''client'' ''transaction''
             (JObj [(''signature'', JStr ''3L3RY''), (''slot'', JNum (Finite 392892992)),
                    (''commitment'', JStr ''processed''),
                    (''tokenTransfers'', JNum (Finite 2)),
                    (''mints'', JArr [JStr ''A'', JStr ''B''])])],
        run_token = ''abc123'', run_outcome = Returned\<rparr>"
proof -
  let ?r = "raw_transaction_event [''A'', ''B'']"
  let ?n = "enhanced_transaction_event [''A'', ''B'']"
  let ?cfg = "default_config\<lparr>TX_LOG_MODE := summary\<rparr>"
  have pr: "JSON_parse (decoding_env ?r) ''tx'' = Some ?r"
    and pn: "JSON_parse (decoding_env ?n) ''tx'' = Some ?n"
    by (simp_all add: decoding_env_def offline_env_def)
  have tr: "isWsTransactionEvent ?r" and tn: "isWsTransactionEvent ?n"
    by (simp_all add: isWsTransactionEvent_def isRecord_def raw_transaction_event_def
        enhanced_transaction_event_def)
  have mr: "member ?r ''nativeTransfers'' = None"
    by (simp add: raw_transaction_event_def)
  have mn: "member ?n ''nativeTransfers'' = Some (JArr [])"
    by (simp add: enhanced_transaction_event_def)
  have sr: "summarizeRawTransaction ?r
      = Inr (JObj [(''signature'', JStr ''3L3RY''), (''slot'', JNum (Finite 392892992)),
                    (''commitment'', JStr ''processed''),
                    (''tokenBalanceChanges'', JNum (Finite 2)),
                    (''mints'', JArr [JStr ''A'', JStr ''B''])])"
    by (simp add: summarizeRawTransaction_def raw_transaction_event_def entry_with_mint_def
        nullish_or_def optional_get_def Set_add_def)
  have sn: "summarizeEnhancedTransaction ?n
      = Inr (JObj [(''signature'', JStr ''3L3RY''), (''slot'', JNum (Finite 392892992)),
                    (''commitment'', JStr ''processed''),
                    (''tokenTransfers'', JNum (Finite 2)),
                    (''mints'', JArr [JStr ''A'', JStr ''B''])])"
    by (simp add: summarizeEnhancedTransaction_def enhanced_transaction_event_def
        entry_with_mint_def Set_add_def)
  have c: "TX_LOG_MODE ?cfg = summary" by simp
  from transaction_enhanced_iff_nativeTransfers[OF pr tr, of ?cfg sample_renewUrl "''abc123''"]
    transaction_enhanced_iff_nativeTransfers[OF pn tn, of ?cfg sample_renewUrl "''abc123''"]
  show ?thesis using pr tr tn mr mn by (simp add: sr sn)
qed

subsection \<open>One handler on its own\<close>

text \<open>
  The two descriptions of the message handler agree: started on a message from the
  initial state and resumed, with nothing in between, on the answers of the environment
  until it has finished (three waits at most), the handler leaves the token, the effects
  and the rejection that \<open>ws_on_message\<close> gives.
\<close>

lemma httpRenew_split:
  "httpRenew e renewUrl tok =
     (case httpRenew_settled (fetchWithPayment e (renew_request renewUrl tok)) of
        (es, r) \<Rightarrow>
          ([logInfo ''client'' ''requesting http renew'' (JObj [(''url'', JStr renewUrl)]),
            FetchWithPayment (renew_request renewUrl tok)] @ es, r))"
  by (simp add: httpRenew_def httpRenew_settled_def Let_def split: sum.splits)

lemma inbandRenewChallenge_split:
  "inbandRenewChallenge e renewUrl tok =
     (case inbandRenewChallenge_settled e (fetch e (renew_request renewUrl tok)) of
        (es, r) \<Rightarrow> (Fetch (renew_request renewUrl tok) # es, r))"
  by (simp add: inbandRenewChallenge_def inbandRenewChallenge_settled_def Let_def
      split: sum.splits)

lemma settle_alone_done: "cl_pending c = [] \<Longrightarrow> settle_alone e cfg renewUrl n c = c"
  by (cases n) simp_all

lemma settle_alone_step:
  "cl_pending c = p # ps \<Longrightarrow>
     settle_alone e cfg renewUrl (Suc n) c
       = settle_alone e cfg renewUrl n (step e cfg renewUrl c (Settle 0 (env_settlement e p)))"
  by simp

lemma settle_sleep:
  "cl_pending c = [AwaitSleep] \<Longrightarrow>
     settle_alone e cfg renewUrl (Suc n) c = c\<lparr>cl_pending := []\<rparr>"
  by (simp add: step_def remove_nth_def settle_alone_done)

lemma handler_alone_http:
  assumes "RENEW_METHOD cfg = http" and "reaches_renewal (safeJsonParse e buf)"
  shows "settle_alone e cfg renewUrl 3 (step e cfg renewUrl (initial_client tok) (Message buf))
     = \<lparr>cl_token = run_token (ws_on_message e cfg renewUrl tok buf), cl_pending = [],
        cl_trace = run_effects (ws_on_message e cfg renewUrl tok buf), cl_unhandled = []\<rparr>"
proof -
  let ?req = "renew_request renewUrl tok"
  let ?es0 = "[logInfo ''client'' ''ws event'' (JObj [(''op'', get (safeJsonParse e buf) ''op'')]),
      logInfo ''client'' ''requesting http renew'' (JObj [(''url'', JStr renewUrl)]),
      FetchWithPayment ?req]"
  let ?c1 = "\<lparr>cl_token = tok, cl_pending = [AwaitHttpRenew ?req], cl_trace = ?es0,
      cl_unhandled = []\<rparr>"
  have s1: "step e cfg renewUrl (initial_client tok) (Message buf) = ?c1"
    using assms by (simp add: step_def begin_renew_def Let_def initial_client_def)
  have op: "get (safeJsonParse e buf) ''op'' = JStr ''renewal_reminder''
      \<or> get (safeJsonParse e buf) ''op'' = JStr ''payment_required''"
    using assms(2) by (simp add: reaches_renewal_def)
  obtain es r where h: "httpRenew_settled (fetchWithPayment e ?req) = (es, r)"
    by (cases "httpRenew_settled (fetchWithPayment e ?req)")
  show ?thesis
  proof (cases r)
    case (Inl err)
    have s2: "step e cfg renewUrl ?c1 (Settle 0 (FetchSettled (fetchWithPayment e ?req)))
        = \<lparr>cl_token = tok, cl_pending = [AwaitSleep],
           cl_trace = ?es0 @ es @ catch_renew_error err, cl_unhandled = []\<rparr>"
      by (simp add: step_def h Inl)
    have w: "ws_on_message e cfg renewUrl tok buf
        = \<lparr>run_effects = ?es0 @ es @ catch_renew_error err, run_token = tok,
           run_outcome = Returned\<rparr>"
      using op assms(1)
      by (simp add: reaches_renewal_handler[OF assms(2)] on_x402_event_def try_renew_def
          httpRenew_split h Inl Let_def)
    show ?thesis
      supply settle_alone.simps(2)[simp del]
      by (simp add: s1 numeral_3_eq_3 settle_alone_step[where c = ?c1] s2 settle_sleep w)
  next
    case (Inr renewed)
    let ?t = "the_string (get renewed ''token'')"
    let ?es1 = "[logInfo ''client'' ''sending renew token'' JUndefined,
        WsSend (JObj [(''op'', JStr ''renew_token''), (''token'', JStr ?t)])]"
    have s2: "step e cfg renewUrl ?c1 (Settle 0 (FetchSettled (fetchWithPayment e ?req)))
        = \<lparr>cl_token = ?t, cl_pending = [], cl_trace = ?es0 @ es @ ?es1, cl_unhandled = []\<rparr>"
      by (simp add: step_def h Inr Let_def remove_nth_def)
    have w: "ws_on_message e cfg renewUrl tok buf
        = \<lparr>run_effects = ?es0 @ es @ ?es1, run_token = ?t, run_outcome = Returned\<rparr>"
      using op assms(1)
      by (simp add: reaches_renewal_handler[OF assms(2)] on_x402_event_def try_renew_def
          httpRenew_split h Inr Let_def)
    show ?thesis
      supply settle_alone.simps(2)[simp del]
      by (simp add: s1 numeral_3_eq_3 settle_alone_step[where c = ?c1] s2 settle_alone_done w)
  qed
qed

lemma handler_alone_inband:
  assumes "RENEW_METHOD cfg = inband" and "reaches_renewal (safeJsonParse e buf)"
  shows "settle_alone e cfg renewUrl 3 (step e cfg renewUrl (initial_client tok) (Message buf))
     = \<lparr>cl_token = run_token (ws_on_message e cfg renewUrl tok buf), cl_pending = [],
        cl_trace = run_effects (ws_on_message e cfg renewUrl tok buf), cl_unhandled = []\<rparr>"
proof -
  let ?req = "renew_request renewUrl tok"
  let ?es0 = "[logInfo ''client'' ''ws event'' (JObj [(''op'', get (safeJsonParse e buf) ''op'')]),
      Fetch ?req]"
  let ?c1 = "\<lparr>cl_token = tok, cl_pending = [AwaitChallenge ?req], cl_trace = ?es0,
      cl_unhandled = []\<rparr>"
  have m: "RENEW_METHOD cfg \<noteq> http" using assms(1) by simp
  have s1: "step e cfg renewUrl (initial_client tok) (Message buf) = ?c1"
    using assms by (simp add: step_def begin_renew_def Let_def initial_client_def)
  have op: "get (safeJsonParse e buf) ''op'' = JStr ''renewal_reminder''
      \<or> get (safeJsonParse e buf) ''op'' = JStr ''payment_required''"
    using assms(2) by (simp add: reaches_renewal_def)
  obtain es r where h: "inbandRenewChallenge_settled e (fetch e ?req) = (es, r)"
    by (cases "inbandRenewChallenge_settled e (fetch e ?req)")
  show ?thesis
  proof (cases r)
    case (Inl err)
    have s2: "step e cfg renewUrl ?c1 (Settle 0 (FetchSettled (fetch e ?req)))
        = \<lparr>cl_token = tok, cl_pending = [AwaitSleep],
           cl_trace = ?es0 @ es @ catch_renew_error err, cl_unhandled = []\<rparr>"
      by (simp add: step_def h Inl)
    have w: "ws_on_message e cfg renewUrl tok buf
        = \<lparr>run_effects = ?es0 @ es @ catch_renew_error err, run_token = tok,
           run_outcome = Returned\<rparr>"
      using op m
      by (simp add: reaches_renewal_handler[OF assms(2)] on_x402_event_def try_renew_def
          inbandRenewChallenge_split h Inl Let_def)
    show ?thesis
      supply settle_alone.simps(2)[simp del]
      by (simp add: s1 numeral_3_eq_3 settle_alone_step[where c = ?c1] s2 settle_sleep w)
  next
    case (Inr paymentRequired)
    let ?es1 = "logInfo ''client'' ''ws event'' (JObj [(''op'', get (safeJsonParse e buf) ''op'')])
        # Fetch ?req # es @ [logInfo ''client'' ''creating inband payment payload'' JUndefined]"
    let ?c2 = "\<lparr>cl_token = tok, cl_pending = [AwaitPaymentPayload paymentRequired],
           cl_trace = ?es1, cl_unhandled = []\<rparr>"
    have s2: "step e cfg renewUrl ?c1 (Settle 0 (FetchSettled (fetch e ?req))) = ?c2"
      by (simp add: step_def h Inr)
    let ?sel = "first_element (get paymentRequired ''accepts'')"
    show ?thesis
    proof (cases "createPaymentPayload e paymentRequired")
      case (Inl err)
      have s3: "step e cfg renewUrl ?c2
            (Settle 0 (PayloadSettled (createPaymentPayload e paymentRequired)))
          = \<lparr>cl_token = tok, cl_pending = [AwaitSleep],
             cl_trace = ?es1 @ catch_renew_error err, cl_unhandled = []\<rparr>"
        by (simp add: step_def Inl)
      have w: "ws_on_message e cfg renewUrl tok buf
          = \<lparr>run_effects = ?es1 @ catch_renew_error err, run_token = tok,
             run_outcome = Returned\<rparr>"
        using op m
        by (simp add: reaches_renewal_handler[OF assms(2)] on_x402_event_def try_renew_def
            inbandRenewChallenge_split h \<open>r = Inr paymentRequired\<close> Inl Let_def)
      show ?thesis
        supply settle_alone.simps(2)[simp del]
        by (simp add: s1 numeral_3_eq_3 settle_alone_step[where c = ?c1] s2
            settle_alone_step[where c = ?c2] s3 settle_sleep w)
    next
      case (Inr paymentPayload)
      show ?thesis
      proof (cases "truthy ?sel")
        case False
        let ?err = "Error ''payment-required missing accepts''"
        have s3: "step e cfg renewUrl ?c2
              (Settle 0 (PayloadSettled (createPaymentPayload e paymentRequired)))
            = \<lparr>cl_token = tok, cl_pending = [AwaitSleep],
               cl_trace = ?es1 @ catch_renew_error ?err, cl_unhandled = []\<rparr>"
          using False by (simp add: step_def Inr Let_def)
        have w: "ws_on_message e cfg renewUrl tok buf
            = \<lparr>run_effects = ?es1 @ catch_renew_error ?err, run_token = tok,
               run_outcome = Returned\<rparr>"
          using op m False
          by (simp add: reaches_renewal_handler[OF assms(2)] on_x402_event_def try_renew_def
              inbandRenewChallenge_split h \<open>r = Inr paymentRequired\<close> Inr Let_def)
        show ?thesis
          supply settle_alone.simps(2)[simp del]
          by (simp add: s1 numeral_3_eq_3 settle_alone_step[where c = ?c1] s2
              settle_alone_step[where c = ?c2] s3 settle_sleep w)
      next
        case True
        let ?send = "WsSend (JObj [(''op'', JStr ''renew_inband''),
            (''paymentRequirements'', ?sel), (''paymentPayload'', paymentPayload)])"
        have s3: "step e cfg renewUrl ?c2
              (Settle 0 (PayloadSettled (createPaymentPayload e paymentRequired)))
            = \<lparr>cl_token = tok, cl_pending = [], cl_trace = ?es1 @ [?send], cl_unhandled = []\<rparr>"
          using True by (simp add: step_def Inr Let_def remove_nth_def)
        have w: "ws_on_message e cfg renewUrl tok buf
            = \<lparr>run_effects = ?es1 @ [?send], run_token = tok, run_outcome = Returned\<rparr>"
          using op m True
          by (simp add: reaches_renewal_handler[OF assms(2)] on_x402_event_def try_renew_def
              inbandRenewChallenge_split h \<open>r = Inr paymentRequired\<close> Inr Let_def)
        show ?thesis
          supply settle_alone.simps(2)[simp del]
          by (simp add: s1 numeral_3_eq_3 settle_alone_step[where c = ?c1] s2
              settle_alone_step[where c = ?c2] s3 settle_alone_done w)
      qed
    qed
  qed
qed

lemma handler_alone:
  "settle_alone e cfg renewUrl 3 (step e cfg renewUrl (initial_client tok) (Message buf))
     = \<lparr>cl_token = run_token (ws_on_message e cfg renewUrl tok buf), cl_pending = [],
        cl_trace = run_effects (ws_on_message e cfg renewUrl tok buf),
        cl_unhandled = (case run_outcome (ws_on_message e cfg renewUrl tok buf) of
                          Returned \<Rightarrow> [] | Rejected err \<Rightarrow> [err])\<rparr>"
proof (cases "reaches_renewal (safeJsonParse e buf)")
  case True
  then have o: "run_outcome (ws_on_message e cfg renewUrl tok buf) = Returned"
    by (auto simp: reaches_renewal_handler[OF True] on_x402_event_def Let_def
        split: prod.splits option.splits)
  show ?thesis
  proof (cases "RENEW_METHOD cfg")
    case http
    from handler_alone_http[OF http True] show ?thesis by (simp add: o)
  next
    case inband
    from handler_alone_inband[OF inband True] show ?thesis by (simp add: o)
  qed
next
  case False
  then show ?thesis
    by (simp add: step_def Let_def initial_client_def settle_alone_done)
qed

subsection \<open>Overlapping renewals\<close>

lemma filter_update_le:
  "i < length xs \<Longrightarrow> (P y \<Longrightarrow> P (xs ! i)) \<Longrightarrow>
     length (filter P (xs[i := y])) \<le> length (filter P xs)"
proof (induction xs arbitrary: i)
  case Nil
  then show ?case by simp
next
  case (Cons x xs)
  show ?case
  proof (cases i)
    case 0
    with Cons.prems show ?thesis by auto
  next
    case (Suc j)
    with Cons.prems have "length (filter P (xs[j := y])) \<le> length (filter P xs)"
      by (intro Cons.IH) auto
    with Suc show ?thesis by simp
  qed
qed

lemma filter_remove_nth_le:
  "length (filter P (remove_nth i xs)) \<le> length (filter P xs)"
proof (induction xs arbitrary: i)
  case Nil
  then show ?case by (simp add: remove_nth_def)
next
  case (Cons x xs)
  show ?case
  proof (cases i)
    case 0
    then show ?thesis by (simp add: remove_nth_def)
  next
    case (Suc j)
    with Cons[of j] show ?thesis by (simp add: remove_nth_def)
  qed
qed

lemma resume_renewing:
  "resume e tok p s = Some (es, tok', Some p') \<Longrightarrow> renewing p' \<Longrightarrow> renewing p"
  by (cases p; cases s) (auto split: prod.splits sum.splits if_splits)

lemma in_flight_settle:
  "in_flight (step e cfg renewUrl c (Settle i s)) \<le> in_flight c"
proof (cases "i < length (cl_pending c)")
  case False
  then show ?thesis by (simp add: step_def)
next
  case True
  show ?thesis
  proof (cases "resume e (cl_token c) (cl_pending c ! i) s")
    case None
    with True show ?thesis by (simp add: step_def)
  next
    case (Some r)
    obtain es tok' nxt where r: "r = (es, tok', nxt)" by (cases r)
    show ?thesis
    proof (cases nxt)
      case None
      with True Some r show ?thesis
        by (simp add: step_def in_flight_def filter_remove_nth_le)
    next
      case (Some p')
      have "length (filter renewing ((cl_pending c)[i := p']))
          \<le> length (filter renewing (cl_pending c))"
        using True resume_renewing[of e "cl_token c" "cl_pending c ! i" s es tok' p']
          \<open>resume e (cl_token c) (cl_pending c ! i) s = Some r\<close> r Some
        by (intro filter_update_le) auto
      with True \<open>resume e (cl_token c) (cl_pending c ! i) s = Some r\<close> r Some show ?thesis
        by (simp add: step_def in_flight_def)
    qed
  qed
qed

lemma in_flight_message:
  "in_flight (step e cfg renewUrl c (Message buf))
     = in_flight c + (if reaches_renewal (safeJsonParse e buf) then 1 else 0)"
  by (auto simp: step_def in_flight_def begin_renew_def Let_def)

lemma in_flight_run:
  "in_flight (run_events e cfg renewUrl c evs) \<le> in_flight c + renewal_messages e evs"
proof (induction evs arbitrary: c)
  case Nil
  then show ?case by (simp add: run_events_def renewal_messages_def)
next
  case (Cons ev evs)
  have r: "run_events e cfg renewUrl c (ev # evs)
      = run_events e cfg renewUrl (step e cfg renewUrl c ev) evs"
    by (simp add: run_events_def)
  have "in_flight (step e cfg renewUrl c ev) + renewal_messages e evs
      \<le> in_flight c + renewal_messages e (ev # evs)"
  proof (cases ev)
    case (Message buf)
    then show ?thesis by (simp add: in_flight_message renewal_messages_def)
  next
    case (Settle i s)
    then show ?thesis using in_flight_settle[of e cfg renewUrl c i s]
      by (simp add: renewal_messages_def)
  qed
  with Cons[of "step e cfg renewUrl c ev"] show ?case by (simp add: r)
qed

lemma reminder_starts_http_renewal:
  "step (decoding_env renewal_reminder_event) default_config renewUrl c (Message buf)
     = c\<lparr>cl_trace := cl_trace c
           @ [Log info ''client'' ''ws event'' (JObj [(''op'', JStr ''renewal_reminder'')]),
              Log info ''client'' ''requesting http renew'' (JObj [(''url'', JStr renewUrl)]),
              FetchWithPayment (renew_request renewUrl (cl_token c))],
         cl_pending := cl_pending c @ [AwaitHttpRenew (renew_request renewUrl (cl_token c))]\<rparr>"
proof -
  have d: "safeJsonParse (decoding_env renewal_reminder_event) buf = renewal_reminder_event"
    by (simp add: safeJsonParse_def decoding_env_def offline_env_def)
  have r: "reaches_renewal renewal_reminder_event"
    by (simp add: reaches_renewal_def renewal_reminder_event_def isWsStatusEvent_def
        isWsTransactionEvent_def isWsAccountEvent_def isWsSlotEvent_def isWsTickerEvent_def
        isWsLeaderboardEvent_def isWsX402Event_def isRecord_def)
  have o: "get renewal_reminder_event ''op'' = JStr ''renewal_reminder''"
    by (simp add: renewal_reminder_event_def)
  have h: "RENEW_METHOD default_config = http"
    by (simp add: default_config_def)
  show ?thesis
    by (simp add: step_def d r o h begin_renew_def Let_def logInfo_def)
qed

text \<open>
  Claim C5, as the code has it.  The client has no single-flight guard: every message
  that reaches the renewal branch starts a renewal attempt at once, whether or not an
  earlier attempt is still waiting, and no settling of an awaited call starts one.  So
  the number of renewal attempts in flight is at most the number of renewal_reminder
  and payment_required messages delivered so far, and it is not bounded by one.
\<close>

theorem renewals_in_flight_bounded_by_renewal_messages:
  "in_flight (step e cfg renewUrl c (Message buf))
     = in_flight c + (if reaches_renewal (safeJsonParse e buf) then 1 else 0)
   \<and> in_flight (step e cfg renewUrl c (Settle i s)) \<le> in_flight c
   \<and> in_flight (run_events e cfg renewUrl (initial_client token) evs) \<le> renewal_messages e evs"
  using in_flight_run[of e cfg renewUrl "initial_client token" evs]
  by (simp add: in_flight_message in_flight_settle) (simp add: in_flight_def initial_client_def)

theorem renewals_in_flight_bounded_by_renewal_messages_witness:
  "in_flight
     (run_events (decoding_env renewal_reminder_event) default_config sample_renewUrl
        (initial_client ''abc123'')
        [Message ''reminder 1'', Settle 0 (FetchSettled (Inl (Error ''fetch failed''))),
         Message ''reminder 2'']) = 1
   \<and> renewal_messages (decoding_env renewal_reminder_event)
        [Message ''reminder 1'', Settle 0 (FetchSettled (Inl (Error ''fetch failed''))),
         Message ''reminder 2''] = 2
   \<and> cl_pending
     (run_events (decoding_env renewal_reminder_event) default_config sample_renewUrl
        (initial_client ''abc123'')
        [Message ''reminder 1'', Settle 0 (FetchSettled (Inl (Error ''fetch failed''))),
         Message ''reminder 2''])
     = [AwaitSleep, AwaitHttpRenew (renew_request sample_renewUrl ''abc123'')]"
proof -
  let ?e = "decoding_env renewal_reminder_event"
  let ?evs = "[Message ''reminder 1'', Settle 0 (FetchSettled (Inl (Error ''fetch failed''))),
         Message ''reminder 2'']"
  let ?c = "run_events ?e default_config sample_renewUrl (initial_client ''abc123'') ?evs"
  have p: "cl_pending ?c = [AwaitSleep, AwaitHttpRenew (renew_request sample_renewUrl ''abc123'')]"
    by (simp add: run_events_def reminder_starts_http_renewal initial_client_def)
       (simp add: step_def httpRenew_settled_def)
  have r: "\<And>buf. reaches_renewal (safeJsonParse ?e buf)"
    by (simp add: reaches_renewal_def safeJsonParse_def decoding_env_def offline_env_def
      renewal_reminder_event_def isWsStatusEvent_def isWsTransactionEvent_def
      isWsAccountEvent_def isWsSlotEvent_def isWsTickerEvent_def isWsLeaderboardEvent_def
      isWsX402Event_def isRecord_def)
  have m: "renewal_messages ?e ?evs = 2"
    by (simp add: renewal_messages_def r)
  have "in_flight ?c = 1" by (simp add: in_flight_def p)
  with renewals_in_flight_bounded_by_renewal_messages[of ?e default_config sample_renewUrl _ _ _ _ "''abc123''" ?evs] m p
  show ?thesis by simp
qed

text \<open>
  Claim C5 as stated, that at most one renewal attempt is in flight at any time, fails:
  after two renewal reminders delivered before the first renewal call settles, two
  direct renewals are in flight, both posted with the same token, and no \<^verbatim>\<open>renew_token\<close>
  message has been sent yet.
\<close>

theorem two_renewals_in_flight_counterexample:
  "\<not> in_flight
       (run_events (decoding_env renewal_reminder_event) default_config sample_renewUrl
          (initial_client ''abc123'') [Message ''reminder 1'', Message ''reminder 2'']) \<le> 1
   \<and> cl_pending
       (run_events (decoding_env renewal_reminder_event) default_config sample_renewUrl
          (initial_client ''abc123'') [Message ''reminder 1'', Message ''reminder 2''])
     = [AwaitHttpRenew (renew_request sample_renewUrl ''abc123''),
        AwaitHttpRenew (renew_request sample_renewUrl ''abc123'')]
   \<and> sent (cl_trace
       (run_events (decoding_env renewal_reminder_event) default_config sample_renewUrl
          (initial_client ''abc123'') [Message ''reminder 1'', Message ''reminder 2''])) = []"
  by (simp add: run_events_def reminder_starts_http_renewal initial_client_def in_flight_def)

subsection \<open>The token under in-band renewal\<close>

lemma not_renewal_token:
  assumes "\<not> reaches_renewal (safeJsonParse e buf)"
  shows "run_token (ws_on_message e cfg renewUrl tok buf) = tok
     \<and> list_all (challenge_or_local renewUrl tok') (run_effects (ws_on_message e cfg renewUrl tok buf))"
  using assms
  by (auto simp: reaches_renewal_def ws_on_message_def Let_def logged_def on_transaction_def
      on_x402_event_def logInfo_def logWarn_def split: sum.splits)

lemma settled_effects:
  "list_all (challenge_or_local renewUrl tok) (fst (httpRenew_settled r))"
  "list_all (challenge_or_local renewUrl tok) (fst (inbandRenewChallenge_settled e r))"
  "list_all (challenge_or_local renewUrl tok) (catch_renew_error err)"
  by (auto simp: httpRenew_settled_def inbandRenewChallenge_settled_def catch_renew_error_def
      logInfo_def logWarn_def split: sum.splits)

lemma resume_inband:
  assumes "resume e tok p s = Some (es, tok', nxt)" and "\<not> awaits_http p"
  shows "tok' = tok \<and> list_all (challenge_or_local renewUrl tok0) es
     \<and> (\<forall>p'. nxt = Some p' \<longrightarrow> \<not> awaits_http p')"
proof (cases p)
  case (AwaitHttpRenew req)
  with assms(2) show ?thesis by simp
next
  case (AwaitChallenge req)
  with assms(1) obtain r where s: "s = FetchSettled r" by (cases s) auto
  obtain cs cr where c: "inbandRenewChallenge_settled e r = (cs, cr)"
    by (cases "inbandRenewChallenge_settled e r")
  have "list_all (challenge_or_local renewUrl tok0) cs"
    using settled_effects(2)[of renewUrl tok0 e r] by (simp add: c)
  with assms(1) AwaitChallenge s c show ?thesis
    using settled_effects(3)[of renewUrl tok0]
    by (cases cr) (auto simp: logInfo_def)
next
  case (AwaitPaymentPayload pr)
  with assms(1) obtain r where s: "s = PayloadSettled r" by (cases s) auto
  with assms(1) AwaitPaymentPayload show ?thesis
    using settled_effects(3)[of renewUrl tok0]
    by (cases r) (auto simp: Let_def split: if_splits)
next
  case AwaitSleep
  with assms(1) show ?thesis by (cases s) auto
qed

lemma list_all_update:
  "list_all P xs \<Longrightarrow> P y \<Longrightarrow> list_all P (xs[i := y])"
  by (induction xs arbitrary: i) (auto split: nat.splits)

lemma list_all_remove_nth:
  "list_all P xs \<Longrightarrow> list_all P (remove_nth i xs)"
  unfolding remove_nth_def list_all_iff
  by (auto dest: in_set_takeD in_set_dropD)

lemma step_inband:
  assumes "RENEW_METHOD cfg = inband"
    and "cl_token c = token"
    and "list_all (\<lambda>p. \<not> awaits_http p) (cl_pending c)"
    and "list_all (challenge_or_local renewUrl token) (cl_trace c)"
  shows "cl_token (step e cfg renewUrl c ev) = token
     \<and> list_all (\<lambda>p. \<not> awaits_http p) (cl_pending (step e cfg renewUrl c ev))
     \<and> list_all (challenge_or_local renewUrl token) (cl_trace (step e cfg renewUrl c ev))"
proof (cases ev)
  case (Message buf)
  show ?thesis
  proof (cases "reaches_renewal (safeJsonParse e buf)")
    case True
    with Message assms show ?thesis
      by (simp add: step_def begin_renew_def Let_def logInfo_def)
  next
    case False
    from not_renewal_token[OF False, of cfg renewUrl token token] Message False assms
    show ?thesis by (simp add: step_def Let_def)
  qed
next
  case (Settle i s)
  show ?thesis
  proof (cases "i < length (cl_pending c)")
    case False
    with Settle assms show ?thesis by (simp add: step_def)
  next
    case True
    then have np: "\<not> awaits_http (cl_pending c ! i)"
      using assms(3) by (simp add: list_all_length)
    show ?thesis
    proof (cases "resume e (cl_token c) (cl_pending c ! i) s")
      case None
      with Settle True assms show ?thesis by (simp add: step_def)
    next
      case (Some r)
      obtain es tok' nxt where r: "r = (es, tok', nxt)" by (cases r)
      from resume_inband[OF Some[unfolded r] np, of renewUrl token]
      have t: "tok' = cl_token c" and es: "list_all (challenge_or_local renewUrl token) es"
        and n: "\<And>p'. nxt = Some p' \<Longrightarrow> \<not> awaits_http p'"
        by auto
      show ?thesis
      proof (cases nxt)
        case None
        with Settle True Some r t es assms show ?thesis
          by (simp add: step_def list_all_remove_nth)
      next
        case (Some p')
        with Settle True \<open>resume e (cl_token c) (cl_pending c ! i) s = Some r\<close> r t es assms
          n[OF Some]
        show ?thesis
          by (simp add: step_def list_all_update)
      qed
    qed
  qed
qed

lemma run_inband:
  assumes "RENEW_METHOD cfg = inband"
  shows "cl_token c = token \<Longrightarrow> list_all (\<lambda>p. \<not> awaits_http p) (cl_pending c) \<Longrightarrow>
     list_all (challenge_or_local renewUrl token) (cl_trace c) \<Longrightarrow>
     cl_token (run_events e cfg renewUrl c evs) = token
     \<and> list_all (challenge_or_local renewUrl token) (cl_trace (run_events e cfg renewUrl c evs))"
proof (induction evs arbitrary: c)
  case Nil
  then show ?case by (simp add: run_events_def)
next
  case (Cons ev evs)
  from step_inband[OF assms Cons.prems, of e ev]
  have "cl_token (run_events e cfg renewUrl (step e cfg renewUrl c ev) evs) = token
     \<and> list_all (challenge_or_local renewUrl token)
          (cl_trace (run_events e cfg renewUrl (step e cfg renewUrl c ev) evs))"
    by (intro Cons.IH) auto
  then show ?case by (simp add: run_events_def)
qed

lemma step_token_change:
  assumes "cl_token (step e cfg renewUrl c ev) \<noteq> cl_token c"
  shows "\<exists>i req r. ev = Settle i (FetchSettled r) \<and> i < length (cl_pending c)
     \<and> cl_pending c ! i = AwaitHttpRenew req"
proof (cases ev)
  case (Message buf)
  show ?thesis
  proof (cases "reaches_renewal (safeJsonParse e buf)")
    case True
    with Message assms show ?thesis
      by (simp add: step_def begin_renew_def Let_def split: if_splits)
  next
    case False
    from not_renewal_token[OF False, of cfg renewUrl "cl_token c" "cl_token c"] Message False assms
    show ?thesis by (simp add: step_def Let_def)
  qed
next
  case (Settle i s)
  with assms have i: "i < length (cl_pending c)"
    by (auto simp: step_def split: if_splits)
  show ?thesis
  proof (cases "awaits_http (cl_pending c ! i)")
    case True
    then obtain req where p: "cl_pending c ! i = AwaitHttpRenew req"
      by (cases "cl_pending c ! i") auto
    with assms Settle i obtain r where "s = FetchSettled r"
      by (cases s) (auto simp: step_def)
    with Settle i p show ?thesis by auto
  next
    case False
    show ?thesis
    proof (cases "resume e (cl_token c) (cl_pending c ! i) s")
      case None
      with Settle i assms show ?thesis by (simp add: step_def)
    next
      case (Some r)
      obtain es tok' nxt where r: "r = (es, tok', nxt)" by (cases r)
      from resume_inband[OF Some[unfolded r] False, of renewUrl "cl_token c"]
      have "tok' = cl_token c" by simp
      with Settle i Some r assms show ?thesis by (simp add: step_def)
    qed
  qed
qed

text \<open>
  Claim C10.  With the renewal method \<^verbatim>\<open>inband\<close>, whatever messages arrive and however
  the awaited calls settle and interleave, the current token stays the token the
  session was acquired with; every request the client issues is a plain POST to the
  renewal URL whose body carries that token, and the payment-wrapping fetch is never
  called.  Under either method a step changes the current token only when it resumes a
  handler that waits for a direct (http) renewal.
\<close>

theorem inband_renewal_never_changes_token:
  assumes "RENEW_METHOD cfg = inband"
  shows "cl_token (run_events e cfg renewUrl (initial_client token) evs) = token
   \<and> (\<forall>req. Fetch req \<in> set (cl_trace (run_events e cfg renewUrl (initial_client token) evs))
         \<longrightarrow> req_url req = renewUrl \<and> req_method req = ''POST''
             \<and> req_body req = Some (JObj [(''token'', JStr token)]))
   \<and> (\<forall>req. FetchWithPayment req
         \<notin> set (cl_trace (run_events e cfg renewUrl (initial_client token) evs)))
   \<and> (\<forall>cfg' c ev. cl_token (step e cfg' renewUrl c ev) \<noteq> cl_token c \<longrightarrow>
         (\<exists>i req r. ev = Settle i (FetchSettled r) \<and> i < length (cl_pending c)
            \<and> cl_pending c ! i = AwaitHttpRenew req))"
proof -
  let ?c = "run_events e cfg renewUrl (initial_client token) evs"
  have "cl_token ?c = token \<and> list_all (challenge_or_local renewUrl token) (cl_trace ?c)"
    by (rule run_inband[OF assms]) (simp_all add: initial_client_def)
  then have t: "cl_token ?c = token"
    and a: "\<And>ef. ef \<in> set (cl_trace ?c) \<Longrightarrow> challenge_or_local renewUrl token ef"
    by (simp_all add: list_all_iff)
  have f0: "\<And>req. Fetch req \<in> set (cl_trace ?c) \<Longrightarrow> req = renew_request renewUrl token"
    using a by fastforce
  have f: "req_url req = renewUrl \<and> req_method req = ''POST''
      \<and> req_body req = Some (JObj [(''token'', JStr token)])"
    if "Fetch req \<in> set (cl_trace ?c)" for req
    using f0[OF that] by (simp add: renew_request_def)
  have w: "\<And>req. FetchWithPayment req \<notin> set (cl_trace ?c)"
    using a by fastforce
  show ?thesis
    using t f w step_token_change by blast
qed

theorem inband_renewal_never_changes_token_witness:
  "RENEW_METHOD inband_config = inband
   \<and> cl_token
       (run_events
          (responding_env renewal_reminder_event
             (json_response 402 (challenge_body [sample_requirement ''solana''])))
          inband_config sample_renewUrl (initial_client ''abc123'')
          [Message ''reminder'',
           Settle 0 (FetchSettled
             (Inr (json_response 402 (challenge_body [sample_requirement ''solana''])))),
           Settle 0 (PayloadSettled (Inr signed_payload))]) = ''abc123''
   \<and> cl_trace
       (run_events
          (responding_env renewal_reminder_event
             (json_response 402 (challenge_body [sample_requirement ''solana''])))
          inband_config sample_renewUrl (initial_client ''abc123'')
          [Message ''reminder'',
           Settle 0 (FetchSettled
             (Inr (json_response 402 (challenge_body [sample_requirement ''solana''])))),
           Settle 0 (PayloadSettled (Inr signed_payload))])
     = [Log info ''client'' ''ws event'' (JObj [(''op'', JStr ''renewal_reminder'')]),
        Fetch \<lparr>req_url = sample_renewUrl, req_method = ''POST'',
                req_headers = [(''content-type'', ''application/json'')],
                req_body = Some (JObj [(''token'', JStr ''abc123'')])\<rparr>,
        Log info ''client'' ''received inband challenge'' (JObj [(''accepts'', JNum (Finite 1))]),
        Log info ''client'' ''creating inband payment payload'' JUndefined,
        WsSend (JObj [(''op'', JStr ''renew_inband''),
                      (''paymentRequirements'', sample_requirement ''solana''),
                      (''paymentPayload'', signed_payload)])]"
proof -
  let ?resp = "json_response 402 (challenge_body [sample_requirement ''solana''])"
  let ?e = "responding_env renewal_reminder_event ?resp"
  let ?evs = "[Message ''reminder'', Settle 0 (FetchSettled (Inr ?resp)),
           Settle 0 (PayloadSettled (Inr signed_payload))]"
  have h: "RENEW_METHOD inband_config = inband"
    by (simp add: inband_config_def)
  have d: "\<And>buf. safeJsonParse ?e buf = renewal_reminder_event"
    by (simp add: safeJsonParse_def responding_env_def offline_env_def)
  have r: "reaches_renewal renewal_reminder_event"
    by (simp add: reaches_renewal_def renewal_reminder_event_def isWsStatusEvent_def
        isWsTransactionEvent_def isWsAccountEvent_def isWsSlotEvent_def isWsTickerEvent_def
        isWsLeaderboardEvent_def isWsX402Event_def isRecord_def)
  have o: "get renewal_reminder_event ''op'' = JStr ''renewal_reminder''"
    by (simp add: renewal_reminder_event_def)
  have p: "isPaymentRequired (challenge_body [sample_requirement ''solana''])"
    by (simp add: isPaymentRequired_def isRecord_def challenge_body_def)
  have g: "\<And>m r. getPaymentRequiredResponse (responding_env m r) = (\<lambda>r body. Inr body)"
    by (simp add: responding_env_def offline_env_def)
  have s1: "step ?e inband_config sample_renewUrl (initial_client ''abc123'') (Message ''reminder'')
      = \<lparr>cl_token = ''abc123'',
         cl_pending = [AwaitChallenge (renew_request sample_renewUrl ''abc123'')],
         cl_trace = [Log info ''client'' ''ws event'' (JObj [(''op'', JStr ''renewal_reminder'')]),
                     Fetch (renew_request sample_renewUrl ''abc123'')],
         cl_unhandled = []\<rparr>"
    by (simp add: step_def d r o h begin_renew_def Let_def logInfo_def initial_client_def)
  have c: "inbandRenewChallenge_settled ?e (Inr ?resp)
      = ([Log info ''client'' ''received inband challenge'' (JObj [(''accepts'', JNum (Finite 1))])],
         Inr (challenge_body [sample_requirement ''solana'']))"
    using p
    by (simp add: inbandRenewChallenge_settled_def g json_response_def json_or_undefined_def
        logInfo_def challenge_body_def)
  have fe: "first_element (get (challenge_body [sample_requirement ''solana'']) ''accepts'')
      = sample_requirement ''solana''"
    by (simp add: challenge_body_def first_element_def)
  have tr: "truthy (sample_requirement ''solana'')"
    by (simp add: sample_requirement_def)
  let ?s1 = "\<lparr>cl_token = ''abc123'',
         cl_pending = [AwaitChallenge (renew_request sample_renewUrl ''abc123'')],
         cl_trace = [Log info ''client'' ''ws event'' (JObj [(''op'', JStr ''renewal_reminder'')]),
                     Fetch (renew_request sample_renewUrl ''abc123'')],
         cl_unhandled = []\<rparr>"
  let ?s2 = "\<lparr>cl_token = ''abc123'',
         cl_pending = [AwaitPaymentPayload (challenge_body [sample_requirement ''solana''])],
         cl_trace = [Log info ''client'' ''ws event'' (JObj [(''op'', JStr ''renewal_reminder'')]),
                     Fetch (renew_request sample_renewUrl ''abc123''),
                     Log info ''client'' ''received inband challenge''
                       (JObj [(''accepts'', JNum (Finite 1))]),
                     Log info ''client'' ''creating inband payment payload'' JUndefined],
         cl_unhandled = []\<rparr>"
  have s2: "step ?e inband_config sample_renewUrl ?s1 (Settle 0 (FetchSettled (Inr ?resp))) = ?s2"
    by (simp add: step_def c logInfo_def)
  have s3: "cl_trace (step ?e inband_config sample_renewUrl ?s2
                (Settle 0 (PayloadSettled (Inr signed_payload))))
     = [Log info ''client'' ''ws event'' (JObj [(''op'', JStr ''renewal_reminder'')]),
        Fetch (renew_request sample_renewUrl ''abc123''),
        Log info ''client'' ''received inband challenge'' (JObj [(''accepts'', JNum (Finite 1))]),
        Log info ''client'' ''creating inband payment payload'' JUndefined,
        WsSend (JObj [(''op'', JStr ''renew_inband''),
                      (''paymentRequirements'', sample_requirement ''solana''),
                      (''paymentPayload'', signed_payload)])]"
    by (simp add: step_def fe tr)
  have t: "cl_trace (run_events ?e inband_config sample_renewUrl (initial_client ''abc123'') ?evs)
     = [Log info ''client'' ''ws event'' (JObj [(''op'', JStr ''renewal_reminder'')]),
        Fetch (renew_request sample_renewUrl ''abc123''),
        Log info ''client'' ''received inband challenge'' (JObj [(''accepts'', JNum (Finite 1))]),
        Log info ''client'' ''creating inband payment payload'' JUndefined,
        WsSend (JObj [(''op'', JStr ''renew_inband''),
                      (''paymentRequirements'', sample_requirement ''solana''),
                      (''paymentPayload'', signed_payload)])]"
    by (simp only: run_events_def foldl.simps s1 s2 s3)
  from inband_renewal_never_changes_token[OF h, of ?e sample_renewUrl "''abc123''" ?evs] h t
  show ?thesis by (simp add: renew_request_def)
qed

end
